theory Spec2Isabelle
  imports Complex_Main
begin

section \<open>Text primitives used by the response validator\<close>

text \<open>
  Python strings are modelled as \<open>string\<close>, a \<open>char\<close> standing for one code point below
  256. On such text \<open>str.strip\<close> and the regular expression class \<open>\s\<close> remove or match
  the code points 9-13, 28-32, 133 and 160, the class \<open>\d\<close> is the ten ASCII digits, and
  \<open>str.lower\<close> shifts A-Z and the upper-case Latin-1 letters by 32.

  Python floats (confidence scores, thresholds, time stamps) are modelled as exact
  rationals. Every comparison the engine makes is against 0.75, which is a binary
  fraction, and the graded scores 0.3 * 0.5 + 0.7 * (n / 100) for an integer n stay
  at least 0.002 away from it (0.745 for 85, 0.752 for 86), so rounding does not change
  a branch.
\<close>

definition is_space :: "char \<Rightarrow> bool" where
  "is_space c = (let n = (of_char c :: nat) in
     (9 \<le> n \<and> n \<le> 13) \<or> (28 \<le> n \<and> n \<le> 32) \<or> n = 133 \<or> n = 160)"

definition is_digit :: "char \<Rightarrow> bool" where
  "is_digit c = (let n = (of_char c :: nat) in 48 \<le> n \<and> n \<le> 57)"

definition lower_char :: "char \<Rightarrow> char" where
  "lower_char c = (let n = (of_char c :: nat) in
     if (65 \<le> n \<and> n \<le> 90) \<or> (192 \<le> n \<and> n \<le> 222 \<and> n \<noteq> 215)
     then char_of (n + 32) else c)"

text \<open>\<open>s.lower()\<close>\<close>

definition lower :: "string \<Rightarrow> string" where
  "lower s = map lower_char s"

text \<open>\<open>s.strip()\<close>\<close>

definition strip :: "string \<Rightarrow> string" where
  "strip s = rev (dropWhile is_space (rev (dropWhile is_space s)))"

text \<open>\<open>s.startswith(p)\<close>\<close>

definition startswith :: "string \<Rightarrow> string \<Rightarrow> bool" where
  "startswith s p = (take (length p) s = p)"

text \<open>\<open>p in s\<close> for strings: \<open>p\<close> occurs in \<open>s\<close> as a contiguous substring.\<close>

fun contains :: "string \<Rightarrow> string \<Rightarrow> bool" where
  "contains [] p = (p = [])"
| "contains (c # cs) p = (startswith (c # cs) p \<or> contains cs p)"

text \<open>\<open>int(ds)\<close> for a run of decimal digits.\<close>

definition int_of_digits :: "string \<Rightarrow> nat" where
  "int_of_digits ds = foldl (\<lambda>n c. 10 * n + (of_char c - 48)) 0 ds"

text \<open>
  \<open>re.search(r'SCORE:\s*(\d+)', text)\<close>: the leftmost position where \<open>SCORE:\<close>, any
  run of white space and at least one digit follow each other; the group is the maximal
  run of digits. At one position the match is decided by the greedy reading, because no
  digit is white space.
\<close>

definition score_match_at :: "string \<Rightarrow> string option" where
  "score_match_at s =
     (if startswith s ''SCORE:''
      then (let ds = takeWhile is_digit (dropWhile is_space (drop 6 s))
            in if ds = [] then None else Some ds)
      else None)"

fun score_search :: "string \<Rightarrow> string option" where
  "score_search [] = None"
| "score_search (c # cs) =
     (case score_match_at (c # cs) of
        Some ds \<Rightarrow> Some ds
      | None \<Rightarrow> score_search cs)"

text \<open>
  \<open>re.search(r'REASONING:\s*(.+)', text, re.IGNORECASE | re.DOTALL)\<close> followed by
  \<open>group(1).strip()\<close>: with DOTALL the group runs to the end of the text, and it needs
  one character, so the search succeeds at the first \<open>REASONING:\<close> (in any case) that is
  not the end of the text; stripping the group gives the stripped rest either way.
\<close>

fun reasoning_search :: "string \<Rightarrow> string option" where
  "reasoning_search [] = None"
| "reasoning_search (c # cs) =
     (if startswith (lower (c # cs)) ''reasoning:'' \<and> drop 10 (c # cs) \<noteq> []
      then Some (strip (drop 10 (c # cs)))
      else reasoning_search cs)"

section \<open>Execution specifications\<close>

text \<open>\<open>DataSourceType\<close>, \<open>DataSourceSpec\<close>, \<open>ToolSpec\<close>, \<open>ProviderSpec\<close>,
  \<open>ProcessingSpec\<close> and \<open>AgentExecutionSpec\<close> of \<open>brain/specs\<close>, with the fields the
  engine and the planner read.\<close>

datatype DataSourceType = VECTOR_DB | CONVERSATION_HISTORY

fun source_type_value :: "DataSourceType \<Rightarrow> string" where
  "source_type_value VECTOR_DB = ''vector_db''"
| "source_type_value CONVERSATION_HISTORY = ''conversation_history''"

record DataSourceSpec =
  source_type :: DataSourceType
  ds_query :: "string option"
  ds_limit :: nat
  ds_enabled :: bool

record ToolSpec =
  tool_name :: string
  tool_enabled :: bool

record ProviderSpec =
  provider_type :: string
  model :: "string option"
  max_tokens :: nat

record ProcessingSpec =
  execution_strategy :: string
  reasoning_threshold :: rat

record AgentExecutionSpec =
  data_sources :: "DataSourceSpec list"
  provider :: "ProviderSpec option"
  tools :: "ToolSpec list"
  processing :: ProcessingSpec

section \<open>The response validator\<close>

text \<open>
  The feedback strings of the validator and of the validation node. The literal ones are
  kept as text; the two that format a float with \<open>:.2f\<close> keep the number instead:
  \<open>ConfidenceTooLowReason c r\<close> is \<open>f"Confidence too low ({c:.2f}): {r}"\<close> and
  \<open>ConfidenceTooLow c\<close> is \<open>f"Confidence too low: {c:.2f}"\<close>.
\<close>

datatype feedback =
  FeedbackText string
| ConfidenceTooLowReason rat string
| ConfidenceTooLow rat

text \<open>The dictionary \<open>_validate_response_quality\<close> returns; an absent key is \<open>None\<close>.\<close>

record ValidationResult =
  is_valid :: bool
  vr_confidence :: rat
  vr_feedback :: "feedback option"
  vr_reasoning :: "string option"

text \<open>
  What the grading call of \<open>_validate_response_quality\<close> does on one attempt, as far as
  the validator can tell: \<open>provider.initialize()\<close> returns false, something inside the
  \<open>try\<close> raises (creating the provider, the call, a reply without text, closing the
  provider), or the call replies with a text.
\<close>

datatype grading_outcome =
  GradeInitFailed
| GradeRaised string
| GradeReplied string

definition error_patterns :: "string list" where
  "error_patterns =
     [''i cannot'', ''i can't'', ''i don't have'', ''i'm unable'',
      ''as an ai'', ''i apologize, but'', ''i'm sorry, but'']"

text \<open>The three rule-based stages; \<open>None\<close> when the response passes all of them.\<close>

definition rule_based_checks :: "string \<Rightarrow> ValidationResult option" where
  "rule_based_checks response =
     (if length (strip response) < 10
      then Some \<lparr>is_valid = False, vr_confidence = 1 / 10,
                 vr_feedback = Some (FeedbackText ''Response is too short''),
                 vr_reasoning = None\<rparr>
      else if count_list response CHR '' '' < 3
      then Some \<lparr>is_valid = False, vr_confidence = 2 / 10,
                 vr_feedback = Some (FeedbackText ''Response lacks substance''),
                 vr_reasoning = None\<rparr>
      else if list_ex (contains (lower response)) error_patterns \<and> length response < 100
      then Some \<lparr>is_valid = False, vr_confidence = 3 / 10,
                 vr_feedback =
                   Some (FeedbackText ''Response appears to be a refusal or error message''),
                 vr_reasoning = None\<rparr>
      else None)"

text \<open>
  Two conversions of the parsed score can raise. \<open>int(ds)\<close> raises \<open>ValueError\<close> when the
  digit string, leading zeros included, is longer than the interpreter's limit for
  integer string conversion, 4300 digits in CPython 3.11 unless configured otherwise. \<open>llm_score / 100.0\<close>
  raises \<open>OverflowError\<close> when the integer does not round to a finite double, that is
  from \<open>2 ^ 1024 - 2 ^ 970\<close> on. Both are raised inside the \<open>try\<close> of the grading branch,
  whose handler returns the base confidence.
\<close>

definition int_max_str_digits :: nat where
  "int_max_str_digits = 4300"

definition float_overflow_bound :: nat where
  "float_overflow_bound = 2 ^ 1024 - 2 ^ 970"

definition score_conversion_raises :: "string \<Rightarrow> bool" where
  "score_conversion_raises ds =
     (length ds > int_max_str_digits \<or> float_overflow_bound \<le> int_of_digits ds)"

text \<open>The part of the grading branch that reads the reply of the grading call.\<close>

definition grade_reply :: "rat \<Rightarrow> string \<Rightarrow> ValidationResult" where
  "grade_reply confidence_score reply =
     (let validation_text = strip reply in
      case score_search validation_text of
        Some ds \<Rightarrow>
          (if score_conversion_raises ds
           then \<lparr>is_valid = True, vr_confidence = confidence_score,
                 vr_feedback = None, vr_reasoning = None\<rparr>
           else
          (let llm_score = int_of_digits ds;
               llm_confidence = min (of_nat llm_score / 100) 1;
               final_confidence = confidence_score * (3 / 10) + llm_confidence * (7 / 10);
               reasoning = (case reasoning_search validation_text of
                              Some r \<Rightarrow> r
                            | None \<Rightarrow> ''No reasoning provided'')
           in if final_confidence \<ge> 3 / 4
              then \<lparr>is_valid = True, vr_confidence = final_confidence,
                    vr_feedback = None, vr_reasoning = Some reasoning\<rparr>
              else \<lparr>is_valid = False, vr_confidence = final_confidence,
                    vr_feedback = Some (ConfidenceTooLowReason final_confidence reasoning),
                    vr_reasoning = None\<rparr>))
      | None \<Rightarrow>
          (if contains (lower validation_text) ''acceptable''
              \<or> contains (lower validation_text) ''good''
           then \<lparr>is_valid = True, vr_confidence = 3 / 4,
                 vr_feedback = None, vr_reasoning = None\<rparr>
           else \<lparr>is_valid = False, vr_confidence = 1 / 2,
                 vr_feedback = Some (FeedbackText validation_text),
                 vr_reasoning = None\<rparr>))"

text \<open>\<open>_validate_response_quality\<close>: the rule-based stages, then the grading call.\<close>

definition validate_response_quality ::
  "AgentExecutionSpec \<Rightarrow> grading_outcome \<Rightarrow> string \<Rightarrow> ValidationResult" where
  "validate_response_quality specs grading response =
     (case rule_based_checks response of
        Some r \<Rightarrow> r
      | None \<Rightarrow>
          (let confidence_score = 1 / 2;
               base = \<lparr>is_valid = True, vr_confidence = confidence_score,
                       vr_feedback = None, vr_reasoning = None\<rparr>
           in case provider specs of
                None \<Rightarrow> base
              | Some p \<Rightarrow>
                  (case grading of
                     GradeInitFailed \<Rightarrow> base
                   | GradeRaised e \<Rightarrow> base
                   | GradeReplied reply \<Rightarrow> grade_reply confidence_score reply)))"

section \<open>The workflow state\<close>

record BrainRequest =
  message :: string

text \<open>One entry of \<open>data_source_results\<close>: \<open>{"source", "results", "count"}\<close> or
  \<open>{"source", "error"}\<close>.\<close>

datatype ds_result =
  DSResults string "string list" nat
| DSFailure string string

fun ds_result_source :: "ds_result \<Rightarrow> string" where
  "ds_result_source (DSResults source results n) = source"
| "ds_result_source (DSFailure source err) = source"

text \<open>One entry of \<open>tool_results\<close>: \<open>{"tool", "status", "result"}\<close> or
  \<open>{"tool", "error"}\<close>.\<close>

datatype tool_result =
  ToolExecuted string string string
| ToolFailure string string

record Message =
  role :: string
  content :: string

text \<open>The dictionary a provider's \<open>generate_response\<close> returns; \<open>resp_error\<close> is
  \<open>metadata["error"]\<close>, \<open>None\<close> when absent.\<close>

record LLMResponse =
  success :: bool
  resp_content :: string
  resp_error :: "string option"

text \<open>
  The entries of \<open>errors\<close>. \<open>ErrorText e\<close> is the text \<open>e\<close> itself (\<open>str(e)\<close> of a caught
  exception, or the error a provider reported); the others stand for the formatted
  strings \<open>f"DS Error: {e}"\<close>, \<open>f"Validation error: {e}"\<close>,
  \<open>f"Low confidence response ({c:.2f}) replaced with fallback"\<close> and
  \<open>f"Response validation failed after {n} attempts"\<close>.
\<close>

datatype error_entry =
  ErrorText string
| DSError string
| ValidationError string
| LowConfidenceFallback rat
| ValidationExhausted nat

record WorkflowState =
  execution_id :: string
  request :: BrainRequest
  specs :: AgentExecutionSpec
  data_source_results :: "ds_result list"
  tool_results :: "tool_result list"
  messages :: "Message list"
  llm_response :: "LLMResponse option"
  final_content :: "string option"
  errors :: "error_entry list"
  execution_steps :: "string list"
  status :: string
  start_time :: rat
  end_time :: "rat option"
  validation_attempts :: nat
  max_validation_runs :: nat
  validation_feedback :: "feedback option"
  is_validated :: bool
  confidence_score :: rat

section \<open>The collaborators of the engine\<close>

text \<open>
  What the vector store does for the data source at one position of the spec's list:
  something inside the inner \<open>try\<close> raises before a record is appended, the registry
  reports the store unavailable, \<open>initialize\<close> returns false, or the query returns
  documents (and closing the store afterwards may raise).
\<close>

datatype ds_outcome =
  DSRaised string
| DSNotAvailable
| DSInitFailed
| DSQueried "string list" "string option"

text \<open>
  What one run of the body of \<open>_call_provider_node\<close> meets once a provider is specified:
  an exception before \<open>generate_response\<close> returns (creating or initialising the
  provider, the call itself), or a response (and closing the provider may raise).
\<close>

datatype provider_outcome =
  ProviderRaised string
| ProviderReturned LLMResponse "string option"

text \<open>
  Everything outside the engine, one field per call site. The calls of the retry loop
  are indexed by the number of validation attempts made before them, so a field describes
  any sequence of outcomes.
  \<^item> \<open>ds_setup_fault\<close>: an exception in \<open>_query_data_sources_node\<close> outside the loop
    (the imports, the registry);
  \<^item> \<open>ds_call\<close>: the data source at a position of the list;
  \<^item> \<open>tools_fault\<close>: an exception anywhere in the body of \<open>_execute_tools_node\<close>;
  \<^item> \<open>tool_available\<close>: \<open>registry.check_tool_available\<close>;
  \<^item> \<open>assembly\<close>: the message list \<open>_build_messages_node\<close> assembles, or the
    exception its body raises;
  \<^item> \<open>provider_call\<close>: the generation call;
  \<^item> \<open>validator_fault\<close>: an exception raised in the body of
    \<open>_validate_response_node\<close> once the response is known to be neither empty nor an
    error marker (by the call of \<open>_validate_response_quality\<close>); with a request and a
    provider reply of the declared types nothing there raises, and the field is \<open>None\<close>;
  \<^item> \<open>grading_call\<close>: the grading call of the validator;
  \<^item> \<open>clock\<close>: \<open>time.time()\<close> when the run ends.
\<close>

record Env =
  ds_setup_fault :: "string option"
  ds_call :: "nat \<Rightarrow> ds_outcome"
  tools_fault :: "string option"
  tool_available :: "string \<Rightarrow> bool"
  assembly :: "nat \<Rightarrow> string + Message list"
  provider_call :: "nat \<Rightarrow> provider_outcome"
  validator_fault :: "nat \<Rightarrow> string option"
  grading_call :: "nat \<Rightarrow> grading_outcome"
  clock :: rat

section \<open>The nodes\<close>

definition initialize_node :: "WorkflowState \<Rightarrow> WorkflowState" where
  "initialize_node state =
     state\<lparr>execution_steps := execution_steps state @ [''initialize'']\<rparr>"

text \<open>
  The body of the loop of \<open>_query_data_sources_node\<close> for one enabled entry: the records
  it appends to \<open>results\<close> and the entries it appends to \<open>errors\<close>. Only a \<open>vector_db\<close>
  source is handled; for any other source type the body does nothing.
\<close>

definition query_data_source ::
  "Env \<Rightarrow> nat \<Rightarrow> DataSourceSpec \<Rightarrow> ds_result list \<times> error_entry list" where
  "query_data_source env i ds_spec =
     (let source_name = source_type_value (source_type ds_spec) in
      if source_name = ''vector_db''
      then (case ds_call env i of
              DSRaised e \<Rightarrow> ([], [DSError e])
            | DSNotAvailable \<Rightarrow> ([DSFailure source_name ''Not available''], [])
            | DSInitFailed \<Rightarrow> ([DSFailure source_name ''Initialization failed''], [])
            | DSQueried query_res closing \<Rightarrow>
                ([DSResults source_name query_res (length query_res)],
                 (case closing of None \<Rightarrow> [] | Some e \<Rightarrow> [DSError e])))
      else ([], []))"

text \<open>The loop over \<open>specs.data_sources\<close>, from position \<open>i\<close> on.\<close>

fun query_loop ::
  "Env \<Rightarrow> nat \<Rightarrow> DataSourceSpec list \<Rightarrow> ds_result list \<times> error_entry list" where
  "query_loop env i [] = ([], [])"
| "query_loop env i (ds_spec # rest) =
     (if \<not> ds_enabled ds_spec then query_loop env (Suc i) rest
      else (let (rs, es) = query_data_source env i ds_spec;
                (rs', es') = query_loop env (Suc i) rest
            in (rs @ rs', es @ es')))"

definition query_data_sources_node :: "Env \<Rightarrow> WorkflowState \<Rightarrow> WorkflowState" where
  "query_data_sources_node env state =
     (let s = state\<lparr>execution_steps := execution_steps state @ [''query_data_sources'']\<rparr>
      in case ds_setup_fault env of
           Some e \<Rightarrow> s\<lparr>errors := errors s @ [ErrorText e]\<rparr>
         | None \<Rightarrow>
             (let (results, errs) = query_loop env 0 (data_sources (specs s))
              in s\<lparr>errors := errors s @ errs, data_source_results := results\<rparr>))"

definition execute_tool :: "Env \<Rightarrow> ToolSpec \<Rightarrow> tool_result" where
  "execute_tool env tool =
     (if tool_available env (tool_name tool)
      then ToolExecuted (tool_name tool) ''executed'' ''Tool execution placeholder''
      else ToolFailure (tool_name tool) ''Not available'')"

definition execute_tools_node :: "Env \<Rightarrow> WorkflowState \<Rightarrow> WorkflowState" where
  "execute_tools_node env state =
     (let s = state\<lparr>execution_steps := execution_steps state @ [''execute_tools'']\<rparr>
      in case tools_fault env of
           Some e \<Rightarrow> s\<lparr>errors := errors s @ [ErrorText e]\<rparr>
         | None \<Rightarrow>
             s\<lparr>tool_results := map (execute_tool env) (filter tool_enabled (tools (specs s)))\<rparr>)"

text \<open>
  \<open>_build_messages_node\<close>. The assembled list is the collaborator's; the node's own part
  is the trace entry and the handler, which records the error and, when no messages are
  left from an earlier attempt, falls back to the user's text alone.
\<close>

definition build_messages_node :: "Env \<Rightarrow> WorkflowState \<Rightarrow> WorkflowState" where
  "build_messages_node env state =
     (let s = state\<lparr>execution_steps := execution_steps state @ [''build_messages'']\<rparr>
      in case assembly env (validation_attempts s) of
           Inr msgs \<Rightarrow> s\<lparr>messages := msgs\<rparr>
         | Inl e \<Rightarrow>
             (let s' = s\<lparr>errors := errors s @ [ErrorText e]\<rparr>
              in if messages s' = []
                 then s'\<lparr>messages :=
                        [\<lparr>role = ''user'',
                          content = (if message (request s') = [] then ''Hello''
                                     else message (request s'))\<rparr>]\<rparr>
                 else s'))"

text \<open>The handler of \<open>_call_provider_node\<close>.\<close>

definition provider_call_failed :: "string \<Rightarrow> WorkflowState \<Rightarrow> WorkflowState" where
  "provider_call_failed e state =
     state\<lparr>errors := errors state @ [ErrorText e],
           final_content := Some (''Error calling provider: '' @ e)\<rparr>"

definition call_provider_node :: "Env \<Rightarrow> WorkflowState \<Rightarrow> WorkflowState" where
  "call_provider_node env state =
     (let s = state\<lparr>execution_steps := execution_steps state @ [''call_provider'']\<rparr>
      in case provider (specs s) of
           None \<Rightarrow> provider_call_failed ''No provider specified'' s
         | Some p \<Rightarrow>
             (case provider_call env (validation_attempts s) of
                ProviderRaised e \<Rightarrow> provider_call_failed e s
              | ProviderReturned response closing \<Rightarrow>
                  (let s1 = s\<lparr>llm_response := Some response\<rparr>;
                       s2 = (if success response
                             then s1\<lparr>final_content := Some (resp_content response)\<rparr>
                             else (let err = (case resp_error response of
                                                Some e \<Rightarrow> e
                                              | None \<Rightarrow> ''Unknown provider error'')
                                   in s1\<lparr>errors := errors s1 @ [ErrorText err],
                                         final_content := Some (''Error: '' @ err)\<rparr>))
                   in case closing of
                        None \<Rightarrow> s2
                      | Some e \<Rightarrow> provider_call_failed e s2)))"

text \<open>The early return of \<open>_validate_response_node\<close> for an empty or error-marked
  response.\<close>

definition generation_failed :: "WorkflowState \<Rightarrow> WorkflowState" where
  "generation_failed state =
     state\<lparr>validation_feedback :=
             Some (FeedbackText ''Response generation failed or returned error''),
           confidence_score := 0\<rparr>"

definition validate_response_node :: "Env \<Rightarrow> WorkflowState \<Rightarrow> WorkflowState" where
  "validate_response_node env state =
     (let k = validation_attempts state;
          s = state\<lparr>execution_steps := execution_steps state @ [''validate_response''],
                     validation_attempts := k + 1\<rparr>
      in case final_content s of
           None \<Rightarrow> generation_failed s
         | Some response_content \<Rightarrow>
             if response_content = [] \<or> startswith response_content ''Error:''
             then generation_failed s
             else (case validator_fault env k of
                     Some e \<Rightarrow>
                       s\<lparr>errors := errors s @ [ValidationError e],
                         confidence_score := 1 / 2,
                         is_validated := True\<rparr>
                   | None \<Rightarrow>
                       (let validation_result =
                              validate_response_quality (specs s) (grading_call env k)
                                response_content;
                            confidence = vr_confidence validation_result;
                            s1 = s\<lparr>confidence_score := confidence\<rparr>
                        in if confidence \<ge> 3 / 4
                           then s1\<lparr>is_validated := True\<rparr>
                           else s1\<lparr>is_validated := False,
                                   validation_feedback :=
                                     Some (case vr_feedback validation_result of
                                             Some f \<Rightarrow> f
                                           | None \<Rightarrow> ConfidenceTooLow confidence)\<rparr>)))"

definition fallback_messages :: "string list" where
  "fallback_messages =
     [''I'm not confident I can provide an accurate answer to that question right now.'',
      ''I don't have enough information to give you a reliable response at this time.'',
      ''I'm uncertain about the best way to answer that. Could you rephrase or provide more context?'',
      ''I don't know enough about this topic to provide a helpful response.'']"

definition finalize_node :: "Env \<Rightarrow> WorkflowState \<Rightarrow> WorkflowState" where
  "finalize_node env state =
     (let s = state\<lparr>execution_steps := execution_steps state @ [''finalize'']\<rparr>;
          confidence = confidence_score s;
          s1 = (if confidence < 3 / 4
                then s\<lparr>final_content := Some (hd fallback_messages),
                       errors := errors s @ [LowConfidenceFallback confidence]\<rparr>
                else s)
      in s1\<lparr>status := (if errors s1 \<noteq> [] then ''completed_with_errors'' else ''completed''),
            end_time := Some (clock env)\<rparr>)"

section \<open>Routing\<close>

definition route_after_initialize :: "WorkflowState \<Rightarrow> string" where
  "route_after_initialize state =
     (if data_sources (specs state) \<noteq> [] \<and> list_ex ds_enabled (data_sources (specs state))
      then ''data_sources''
      else if tools (specs state) \<noteq> [] \<and> list_ex tool_enabled (tools (specs state))
      then ''tools''
      else ''messages'')"

definition route_after_data_sources :: "WorkflowState \<Rightarrow> string" where
  "route_after_data_sources state =
     (if tools (specs state) \<noteq> [] \<and> list_ex tool_enabled (tools (specs state))
      then ''tools''
      else ''messages'')"

text \<open>\<open>_route_after_validation\<close> returns the route and, on exhaustion, changes the
  state it was given.\<close>

definition route_after_validation :: "WorkflowState \<Rightarrow> string \<times> WorkflowState" where
  "route_after_validation state =
     (if is_validated state then (''finalize'', state)
      else if validation_attempts state \<ge> max_validation_runs state
      then (''finalize'',
            state\<lparr>is_validated := True,
                  errors := errors state @ [ValidationExhausted (validation_attempts state)]\<rparr>)
      else (''retry'', state))"

section \<open>The two drivers\<close>

text \<open>
  Every node body is enclosed in \<open>try ... except Exception\<close> (the statements outside it
  append to the trace, increment the counter or, in \<open>_finalize_node\<close> and the routers,
  read and write fields of the state), so on a state of the declared types no node and
  no router raises, and the handlers of \<open>_execute_sequential\<close> and \<open>_execute_graph\<close> are
  never entered. The drivers below therefore have no failure branch; what they may do is
  not return, which is the value \<open>None\<close>.
\<close>

text \<open>The body of the \<open>while True\<close> loop of \<open>_execute_sequential\<close>, up to the route.\<close>

definition loop_body :: "Env \<Rightarrow> WorkflowState \<Rightarrow> string \<times> WorkflowState" where
  "loop_body env state =
     route_after_validation
       (validate_response_node env
         (call_provider_node env (build_messages_node env state)))"

text \<open>The loop: it is left on the route \<open>finalize\<close> and entered again on any other.\<close>

partial_function (option) agentic_loop :: "Env \<Rightarrow> WorkflowState \<Rightarrow> WorkflowState option" where
  "agentic_loop env state =
     (case loop_body env state of
        (route, state') \<Rightarrow>
          if route = ''finalize'' then Some state' else agentic_loop env state')"

declare agentic_loop.simps [code]

definition execute_sequential :: "Env \<Rightarrow> WorkflowState \<Rightarrow> WorkflowState option" where
  "execute_sequential env state =
     (let s0 = initialize_node state;
          s1 = (if data_sources (specs s0) \<noteq> [] then query_data_sources_node env s0 else s0);
          s2 = (if tools (specs s1) \<noteq> [] then execute_tools_node env s1 else s1)
      in map_option (finalize_node env) (agentic_loop env s2))"

text \<open>
  The graph of \<open>_build_graph\<close>. The nodes are named as in \<open>add_node\<close>; \<open>END\<close> is the end
  marker of the graph library. The library itself is not part of the repository: its
  runner is taken to execute the node it stands at on the current state and to move
  along the edge declared for it, a conditional edge being chosen by the label its
  router returns, and to keep what the router wrote to the state, as the sequential
  path does.
\<close>

datatype node =
  Initialize
| QueryDataSources
| ExecuteTools
| BuildMessages
| CallProvider
| ValidateResponse
| Finalize
| END

text \<open>The path maps of the three conditional edges.\<close>

definition initialize_edges :: "string \<Rightarrow> node" where
  "initialize_edges label =
     (if label = ''data_sources'' then QueryDataSources
      else if label = ''tools'' then ExecuteTools
      else BuildMessages)"

definition data_sources_edges :: "string \<Rightarrow> node" where
  "data_sources_edges label = (if label = ''tools'' then ExecuteTools else BuildMessages)"

definition validation_edges :: "string \<Rightarrow> node" where
  "validation_edges label = (if label = ''retry'' then BuildMessages else Finalize)"

fun graph_step :: "Env \<Rightarrow> node \<Rightarrow> WorkflowState \<Rightarrow> node \<times> WorkflowState" where
  "graph_step env Initialize state =
     (let s = initialize_node state in (initialize_edges (route_after_initialize s), s))"
| "graph_step env QueryDataSources state =
     (let s = query_data_sources_node env state
      in (data_sources_edges (route_after_data_sources s), s))"
| "graph_step env ExecuteTools state = (BuildMessages, execute_tools_node env state)"
| "graph_step env BuildMessages state = (CallProvider, build_messages_node env state)"
| "graph_step env CallProvider state = (ValidateResponse, call_provider_node env state)"
| "graph_step env ValidateResponse state =
     (case route_after_validation (validate_response_node env state) of
        (route, s) \<Rightarrow> (validation_edges route, s))"
| "graph_step env Finalize state = (END, finalize_node env state)"
| "graph_step env END state = (END, state)"

partial_function (option) run_graph ::
  "Env \<Rightarrow> node \<Rightarrow> WorkflowState \<Rightarrow> WorkflowState option" where
  "run_graph env n state =
     (if n = END then Some state
      else (case graph_step env n state of (n', state') \<Rightarrow> run_graph env n' state'))"

declare run_graph.simps [code]

definition execute_graph :: "Env \<Rightarrow> WorkflowState \<Rightarrow> WorkflowState option" where
  "execute_graph env initial_state = run_graph env Initialize initial_state"

text \<open>The node and state pairs a graph run passes through.\<close>

inductive graph_reaches ::
  "Env \<Rightarrow> node \<Rightarrow> WorkflowState \<Rightarrow> node \<Rightarrow> WorkflowState \<Rightarrow> bool" where
  reaches_start: "graph_reaches env n0 s0 n0 s0"
| reaches_step:
    "graph_reaches env n0 s0 n s \<Longrightarrow> n \<noteq> END \<Longrightarrow> graph_step env n s = (n', s')
     \<Longrightarrow> graph_reaches env n0 s0 n' s'"

section \<open>\<open>execute_plan\<close>\<close>

text \<open>The values of the reasoning notes of a plan.\<close>

datatype note_value =
  NoteText string
| NoteSkipped rat rat
| NoteDict "(string \<times> note_value) list"

record ExecutionPlan =
  original_specs :: AgentExecutionSpec
  optimized_specs :: AgentExecutionSpec
  reasoning_applied :: bool
  plan_confidence :: rat
  reasoning_notes :: "(string \<times> note_value) list"
  estimated_cost :: rat
  estimated_latency :: rat

definition initial_state ::
  "string \<Rightarrow> ExecutionPlan \<Rightarrow> BrainRequest \<Rightarrow> rat \<Rightarrow> WorkflowState" where
  "initial_state eid plan req t0 =
     \<lparr>execution_id = eid,
      request = req,
      specs = optimized_specs plan,
      data_source_results = [],
      tool_results = [],
      messages = [],
      llm_response = None,
      final_content = None,
      errors = [],
      execution_steps = [],
      status = ''running'',
      start_time = t0,
      end_time = None,
      validation_attempts = 0,
      max_validation_runs = 5,
      validation_feedback = None,
      is_validated = False,
      confidence_score = 0\<rparr>"

text \<open>The dictionary \<open>execute_plan\<close> returns, its \<open>metadata\<close> entries flattened.\<close>

record ExecutionResult =
  res_success :: bool
  res_content :: string
  res_execution_id :: string
  res_status :: string
  res_confidence :: rat
  meta_execution_steps :: "string list"
  meta_errors :: "error_entry list"
  meta_duration_seconds :: rat
  meta_confidence_score :: rat
  meta_validation_attempts :: nat

text \<open>The content \<open>execute_plan\<close> reports for a final state.\<close>

definition reported_content :: "WorkflowState \<Rightarrow> string" where
  "reported_content final_state =
     (case final_content final_state of
        Some c \<Rightarrow> c
      | None \<Rightarrow>
          (case llm_response final_state of
             Some r \<Rightarrow> resp_content r
           | None \<Rightarrow> ''No response generated''))"

definition llm_success :: "WorkflowState \<Rightarrow> bool" where
  "llm_success final_state =
     (case llm_response final_state of Some r \<Rightarrow> success r | None \<Rightarrow> False)"

definition has_valid_content :: "string \<Rightarrow> bool" where
  "has_valid_content c =
     (c \<noteq> [] \<and> c \<noteq> ''No response generated'' \<and> \<not> startswith c ''Error:'')"

text \<open>The part of \<open>execute_plan\<close> after the run (``Determine outcome'').\<close>

definition determine_outcome :: "Env \<Rightarrow> WorkflowState \<Rightarrow> ExecutionResult" where
  "determine_outcome env final_state =
     (let c = reported_content final_state;
          is_successful =
            ((llm_success final_state \<and> has_valid_content c)
             \<or> (has_valid_content c
                \<and> (status final_state = ''completed''
                   \<or> status final_state = ''completed_with_errors'')))
      in \<lparr>res_success = is_successful,
          res_content = c,
          res_execution_id = execution_id final_state,
          res_status = status final_state,
          res_confidence = confidence_score final_state,
          meta_execution_steps = execution_steps final_state,
          meta_errors = errors final_state,
          meta_duration_seconds =
            (case end_time final_state of Some t \<Rightarrow> t | None \<Rightarrow> clock env)
              - start_time final_state,
          meta_confidence_score = confidence_score final_state,
          meta_validation_attempts = validation_attempts final_state\<rparr>)"

text \<open>The run of \<open>execute_plan\<close>: the graph when the graph library could be imported,
  the sequential fallback otherwise.\<close>

definition run_workflow :: "Env \<Rightarrow> bool \<Rightarrow> WorkflowState \<Rightarrow> WorkflowState option" where
  "run_workflow env graph_built state =
     (if graph_built then execute_graph env state else execute_sequential env state)"

definition execute_plan ::
  "Env \<Rightarrow> bool \<Rightarrow> string \<Rightarrow> ExecutionPlan \<Rightarrow> BrainRequest \<Rightarrow> rat \<Rightarrow> ExecutionResult option" where
  "execute_plan env graph_built eid plan req t0 =
     map_option (determine_outcome env)
       (run_workflow env graph_built (initial_state eid plan req t0))"

section \<open>The adaptive planner\<close>

text \<open>
  The dictionary \<open>optimize_execution_specs\<close> returns, an absent key being \<open>None\<close>, and
  the two ways the call can end.
\<close>

record ReasoningResult =
  rr_optimized_specs :: "AgentExecutionSpec option"
  rr_confidence :: "rat option"
  rr_notes :: "(string \<times> note_value) list option"
  rr_estimated_cost :: "rat option"
  rr_estimated_latency :: "rat option"

datatype reasoning_outcome =
  ReasoningRaised string
| ReasoningReturned ReasoningResult

text \<open>
  \<open>_create_direct_plan\<close>. The parameter \<open>get_estimates\<close> is \<open>_get_estimates\<close>, which
  returns the pair of the cost and the latency estimate and has a handler of its own.
\<close>

definition create_direct_plan ::
  "(AgentExecutionSpec \<Rightarrow> rat \<times> rat) \<Rightarrow> AgentExecutionSpec \<Rightarrow> ExecutionPlan" where
  "create_direct_plan get_estimates agent_specs =
     \<lparr>original_specs = agent_specs,
      optimized_specs = agent_specs,
      reasoning_applied = False,
      plan_confidence = 1,
      reasoning_notes =
        [(''strategy'', NoteText ''direct''),
         (''message'', NoteText ''Skipped reasoning as requested'')],
      estimated_cost = fst (get_estimates agent_specs),
      estimated_latency = snd (get_estimates agent_specs)\<rparr>"

text \<open>
  \<open>_create_adaptive_plan\<close>, given how the call of the reasoning engine ended. Reading
  \<open>reasoning_result["optimized_specs"]\<close> from a result without that key raises, which the
  handler turns into the direct plan. \<open>NoteSkipped c t\<close> is the string
  \<open>f"confidence {c} < {t}"\<close>.
\<close>

definition create_adaptive_plan ::
  "(AgentExecutionSpec \<Rightarrow> rat \<times> rat) \<Rightarrow> reasoning_outcome \<Rightarrow> AgentExecutionSpec
     \<Rightarrow> ExecutionPlan" where
  "create_adaptive_plan get_estimates outcome agent_specs =
     (case outcome of
        ReasoningRaised e \<Rightarrow> create_direct_plan get_estimates agent_specs
      | ReasoningReturned reasoning_result \<Rightarrow>
          (let confidence = (case rr_confidence reasoning_result of Some c \<Rightarrow> c | None \<Rightarrow> 0);
               threshold = reasoning_threshold (processing agent_specs);
               notes = (case rr_notes reasoning_result of Some n \<Rightarrow> n | None \<Rightarrow> [])
           in if confidence \<ge> threshold
              then (case rr_optimized_specs reasoning_result of
                      None \<Rightarrow> create_direct_plan get_estimates agent_specs
                    | Some optimized \<Rightarrow>
                        \<lparr>original_specs = agent_specs,
                         optimized_specs = optimized,
                         reasoning_applied = True,
                         plan_confidence = confidence,
                         reasoning_notes = notes,
                         estimated_cost =
                           (case rr_estimated_cost reasoning_result of
                              Some c \<Rightarrow> c | None \<Rightarrow> 0),
                         estimated_latency =
                           (case rr_estimated_latency reasoning_result of
                              Some l \<Rightarrow> l | None \<Rightarrow> 0)\<rparr>)
              else \<lparr>original_specs = agent_specs,
                    optimized_specs = agent_specs,
                    reasoning_applied = False,
                    plan_confidence = 1,
                    reasoning_notes =
                      [(''skipped'', NoteSkipped confidence threshold),
                       (''suggestion'', NoteDict notes)],
                    estimated_cost = fst (get_estimates agent_specs),
                    estimated_latency = snd (get_estimates agent_specs)\<rparr>))"

section \<open>The rate limiter\<close>

text \<open>
  The \<open>rate_limiting\<close> section of the configuration of \<open>SecurityManager\<close>, an absent key
  being \<open>None\<close>; the configuration may lack the whole section. Times are \<open>datetime\<close>
  values, counted in microseconds.
\<close>

record RateLimiting =
  rl_enabled :: "bool option"
  max_requests_per_minute :: "int option"
  max_requests_per_hour :: "int option"

record Limits =
  minute :: "int list"
  hour :: "int list"

definition one_minute :: int where
  "one_minute = 60000000"

definition one_hour :: int where
  "one_hour = 3600000000"

definition rate_limiting_enabled :: "RateLimiting option \<Rightarrow> bool" where
  "rate_limiting_enabled cfg =
     (case cfg of None \<Rightarrow> True
      | Some r \<Rightarrow> (case rl_enabled r of None \<Rightarrow> True | Some b \<Rightarrow> b))"

definition max_min :: "RateLimiting option \<Rightarrow> int" where
  "max_min cfg =
     (case cfg of None \<Rightarrow> 60
      | Some r \<Rightarrow> (case max_requests_per_minute r of None \<Rightarrow> 60 | Some n \<Rightarrow> n))"

definition max_hour :: "RateLimiting option \<Rightarrow> int" where
  "max_hour cfg =
     (case cfg of None \<Rightarrow> 1000
      | Some r \<Rightarrow> (case max_requests_per_hour r of None \<Rightarrow> 1000 | Some n \<Rightarrow> n))"

text \<open>
  \<open>check_rate_limit\<close>: the answer and the new value of \<open>self.rate_limits\<close>. The pruned
  windows are stored before the caps are checked, so they are kept on a refusal too.
\<close>

definition check_rate_limit ::
  "RateLimiting option \<Rightarrow> int \<Rightarrow> string \<Rightarrow> (string \<rightharpoonup> Limits)
     \<Rightarrow> bool \<times> (string \<rightharpoonup> Limits)" where
  "check_rate_limit cfg now user_id rate_limits =
     (if \<not> rate_limiting_enabled cfg then (True, rate_limits)
      else (let limits = (case rate_limits user_id of
                            None \<Rightarrow> \<lparr>minute = [], hour = []\<rparr>
                          | Some l \<Rightarrow> l);
                pruned = \<lparr>minute = filter (\<lambda>t. t > now - one_minute) (minute limits),
                          hour = filter (\<lambda>t. t > now - one_hour) (hour limits)\<rparr>
            in if int (length (minute pruned)) \<ge> max_min cfg
               then (False, rate_limits(user_id \<mapsto> pruned))
               else if int (length (hour pruned)) \<ge> max_hour cfg
               then (False, rate_limits(user_id \<mapsto> pruned))
               else (True,
                     rate_limits(user_id \<mapsto>
                       \<lparr>minute = minute pruned @ [now], hour = hour pruned @ [now]\<rparr>))))"

section \<open>Traces and examples\<close>

text \<open>The trace entries of one pass through the retry loop.\<close>

definition attempt_steps :: "string list" where
  "attempt_steps = [''build_messages'', ''call_provider'', ''validate_response'']"

text \<open>The trace of a run that went through its set-up nodes, \<open>k\<close> passes of the loop
  and \<open>finalize\<close>.\<close>

definition completed_trace :: "string list \<Rightarrow> nat \<Rightarrow> bool" where
  "completed_trace steps k =
     (\<exists>q t. steps =
        ''initialize'' # (if q then [''query_data_sources''] else [])
          @ (if t then [''execute_tools''] else [])
          @ concat (replicate k attempt_steps) @ [''finalize''])"

text \<open>What one run of the loop does to the state it starts from.\<close>

definition loop_effect :: "WorkflowState \<Rightarrow> WorkflowState \<Rightarrow> bool" where
  "loop_effect s s' =
     (is_validated s'
      \<and> max_validation_runs s' = max_validation_runs s
      \<and> specs s' = specs s
      \<and> validation_attempts s < validation_attempts s'
      \<and> validation_attempts s' \<le> max (Suc (validation_attempts s)) (max_validation_runs s)
      \<and> (\<exists>k. validation_attempts s' = validation_attempts s + k
            \<and> execution_steps s' = execution_steps s
                 @ concat (replicate k [''build_messages'', ''call_provider'', ''validate_response''])))"

text \<open>What holds of the state whenever a graph run stands at a node: the counter and the
  number of provider calls made so far.\<close>

fun node_invariant :: "node \<Rightarrow> WorkflowState \<Rightarrow> bool" where
  "node_invariant BuildMessages s =
     (max_validation_runs s = 5 \<and> validation_attempts s < 5
      \<and> count_list (execution_steps s) ''call_provider'' = validation_attempts s)"
| "node_invariant CallProvider s =
     (max_validation_runs s = 5 \<and> validation_attempts s < 5
      \<and> count_list (execution_steps s) ''call_provider'' = validation_attempts s)"
| "node_invariant ValidateResponse s =
     (max_validation_runs s = 5 \<and> validation_attempts s < 5
      \<and> count_list (execution_steps s) ''call_provider'' = Suc (validation_attempts s))"
| "node_invariant Finalize s =
     (max_validation_runs s = 5 \<and> validation_attempts s \<le> 5
      \<and> count_list (execution_steps s) ''call_provider'' = validation_attempts s)"
| "node_invariant END s =
     (max_validation_runs s = 5 \<and> validation_attempts s \<le> 5
      \<and> count_list (execution_steps s) ''call_provider'' = validation_attempts s)"
| "node_invariant n s =
     (max_validation_runs s = 5 \<and> validation_attempts s = 0
      \<and> count_list (execution_steps s) ''call_provider'' = 0)"

text \<open>Inputs for concrete runs.\<close>

definition example_request :: BrainRequest where
  "example_request = \<lparr>message = ''What is the capital of France?''\<rparr>"

definition example_provider :: ProviderSpec where
  "example_provider =
     \<lparr>provider_type = ''openai'', model = Some ''gpt-4o-mini'', max_tokens = 2000\<rparr>"

definition example_specs :: AgentExecutionSpec where
  "example_specs =
     \<lparr>data_sources = [], provider = Some example_provider, tools = [],
      processing = \<lparr>execution_strategy = ''direct'', reasoning_threshold = 7 / 10\<rparr>\<rparr>"

definition example_plan :: ExecutionPlan where
  "example_plan = create_direct_plan (\<lambda>sp. (0, 1)) example_specs"

definition good_answer :: string where
  "good_answer = ''The capital of France is Paris, a city on the Seine.''"

text \<open>A grading reply whose score has 310 digits: a one followed by 309 zeros.\<close>

definition huge_score_digits :: string where
  "huge_score_digits = ''1'' @ replicate 309 CHR ''0''"

definition huge_score_reply :: string where
  "huge_score_reply = ''SCORE: '' @ huge_score_digits"

text \<open>A provider that answers well and a grader that scores the answer 90.\<close>

definition env_good :: Env where
  "env_good =
     \<lparr>ds_setup_fault = None,
      ds_call = (\<lambda>i. DSQueried [] None),
      tools_fault = None,
      tool_available = (\<lambda>name. True),
      assembly = (\<lambda>k. Inr [\<lparr>role = ''user'', content = message example_request\<rparr>]),
      provider_call =
        (\<lambda>k. ProviderReturned
               \<lparr>success = True, resp_content = good_answer, resp_error = None\<rparr> None),
      validator_fault = (\<lambda>k. None),
      grading_call = (\<lambda>k. GradeReplied ''SCORE: 90 REASONING: correct and complete''),
      clock = 10\<rparr>"

text \<open>A provider that reports a failure on every call.\<close>

definition env_provider_fails :: Env where
  "env_provider_fails =
     env_good\<lparr>provider_call :=
       (\<lambda>k. ProviderReturned
              \<lparr>success = False, resp_content = [], resp_error = Some ''rate limited''\<rparr> None)\<rparr>"

text \<open>A validator that raises on every attempt.\<close>

definition env_validator_raises :: Env where
  "env_validator_raises = env_good\<lparr>validator_fault := (\<lambda>k. Some ''no message'')\<rparr>"

text \<open>A provider call and a validator that both raise on every attempt.\<close>

definition env_all_raise :: Env where
  "env_all_raise =
     env_good\<lparr>provider_call := (\<lambda>k. ProviderRaised ''connection refused''),
              validator_fault := (\<lambda>k. Some ''no message'')\<rparr>"

text \<open>A cheaper plan proposed by the reasoning engine, with confidence \<open>c\<close>.\<close>

definition cheaper_specs :: AgentExecutionSpec where
  "cheaper_specs = example_specs\<lparr>provider :=
     Some \<lparr>provider_type = ''openai'', model = Some ''gpt-4o-mini'', max_tokens = 500\<rparr>\<rparr>"

definition example_reasoning :: "rat \<Rightarrow> ReasoningResult" where
  "example_reasoning c =
     \<lparr>rr_optimized_specs = Some cheaper_specs,
      rr_confidence = Some c,
      rr_notes = Some [(''provider'', NoteText ''can use cheaper'')],
      rr_estimated_cost = Some (1 / 200),
      rr_estimated_latency = Some 2\<rparr>"

text \<open>Data sources, a store that returns one document per position, and a state whose
  spec lists given sources.\<close>

definition vector_source :: "bool \<Rightarrow> DataSourceSpec" where
  "vector_source on =
     \<lparr>source_type = VECTOR_DB, ds_query = None, ds_limit = 5, ds_enabled = on\<rparr>"

definition history_source :: DataSourceSpec where
  "history_source =
     \<lparr>source_type = CONVERSATION_HISTORY, ds_query = None, ds_limit = 5, ds_enabled = True\<rparr>"

definition sources_state :: "DataSourceSpec list \<Rightarrow> WorkflowState" where
  "sources_state ds =
     initial_state ''run-8''
       (create_direct_plan (\<lambda>sp. (0, 1)) (example_specs\<lparr>data_sources := ds\<rparr>))
       example_request 0"

definition env_documents :: Env where
  "env_documents = env_good\<lparr>ds_call := (\<lambda>i. DSQueried [''doc'' @ [char_of (48 + i)]] None)\<rparr>"

text \<open>A configuration that sets \<open>max_requests_per_minute\<close> to 2 and nothing else.\<close>

definition two_per_minute :: "RateLimiting option" where
  "two_per_minute =
     Some \<lparr>rl_enabled = None, max_requests_per_minute = Some 2, max_requests_per_hour = None\<rparr>"

section \<open>Frame and termination lemmas\<close>

named_theorems frame

lemma build_messages_node_frame [frame]:
  "validation_attempts (build_messages_node env s) = validation_attempts s"
  "max_validation_runs (build_messages_node env s) = max_validation_runs s"
  "execution_steps (build_messages_node env s) = execution_steps s @ [''build_messages'']"
  "is_validated (build_messages_node env s) = is_validated s"
  "specs (build_messages_node env s) = specs s"
  by (simp_all add: build_messages_node_def Let_def split: sum.splits)

lemma call_provider_node_frame [frame]:
  "validation_attempts (call_provider_node env s) = validation_attempts s"
  "max_validation_runs (call_provider_node env s) = max_validation_runs s"
  "execution_steps (call_provider_node env s) = execution_steps s @ [''call_provider'']"
  "is_validated (call_provider_node env s) = is_validated s"
  "specs (call_provider_node env s) = specs s"
  by (simp_all add: call_provider_node_def provider_call_failed_def Let_def
      split: option.splits provider_outcome.splits)

lemma validate_response_node_frame [frame]:
  "validation_attempts (validate_response_node env s) = Suc (validation_attempts s)"
  "max_validation_runs (validate_response_node env s) = max_validation_runs s"
  "execution_steps (validate_response_node env s) = execution_steps s @ [''validate_response'']"
  "specs (validate_response_node env s) = specs s"
  by (simp_all add: validate_response_node_def generation_failed_def Let_def
      split: option.splits)

lemma route_after_validation_frame [frame]:
  "validation_attempts (snd (route_after_validation s)) = validation_attempts s"
  "max_validation_runs (snd (route_after_validation s)) = max_validation_runs s"
  "execution_steps (snd (route_after_validation s)) = execution_steps s"
  "specs (snd (route_after_validation s)) = specs s"
  by (simp_all add: route_after_validation_def)

lemma route_after_validation_cases:
  "fst (route_after_validation s) = ''finalize'' \<and> is_validated (snd (route_after_validation s))
   \<or> fst (route_after_validation s) = ''retry''
      \<and> validation_attempts s < max_validation_runs s
      \<and> \<not> is_validated s \<and> snd (route_after_validation s) = s"
  by (simp add: route_after_validation_def)

lemma loop_body_frame [frame]:
  "validation_attempts (snd (loop_body env s)) = Suc (validation_attempts s)"
  "max_validation_runs (snd (loop_body env s)) = max_validation_runs s"
  "execution_steps (snd (loop_body env s)) =
     execution_steps s @ [''build_messages'', ''call_provider'', ''validate_response'']"
  "specs (snd (loop_body env s)) = specs s"
  by (simp_all add: loop_body_def frame)

lemma loop_body_cases:
  "fst (loop_body env s) = ''finalize'' \<and> is_validated (snd (loop_body env s))
   \<or> fst (loop_body env s) = ''retry''
      \<and> Suc (validation_attempts s) < max_validation_runs s"
  using route_after_validation_cases
    [of "validate_response_node env (call_provider_node env (build_messages_node env s))"]
  by (auto simp add: loop_body_def frame)

lemma agentic_loop_unfold:
  "agentic_loop env s =
     (if fst (loop_body env s) = ''finalize'' then Some (snd (loop_body env s))
      else agentic_loop env (snd (loop_body env s)))"
  by (subst agentic_loop.simps) (simp add: case_prod_beta)

lemma run_graph_END: "run_graph env END s = Some s"
  by (subst run_graph.simps) simp

lemma run_graph_Finalize: "run_graph env Finalize s = Some (finalize_node env s)"
  by (subst run_graph.simps) (simp add: run_graph_END)

lemma run_graph_BuildMessages:
  "run_graph env BuildMessages s =
     run_graph env (validation_edges (fst (loop_body env s))) (snd (loop_body env s))"
  apply (subst run_graph.simps, simp)
  apply (subst run_graph.simps, simp)
  apply (subst run_graph.simps, simp add: loop_body_def case_prod_beta)
  done

lemma agentic_loop_total:
  "\<exists>s'. agentic_loop env s = Some s'
        \<and> run_graph env BuildMessages s = Some (finalize_node env s')
        \<and> loop_effect s s'"
proof (induction "max_validation_runs s - validation_attempts s" arbitrary: s rule: less_induct)
  case less
  let ?r = "fst (loop_body env s)" and ?t = "snd (loop_body env s)"
  from loop_body_cases [of env s] show ?case
  proof
    assume fin: "?r = ''finalize'' \<and> is_validated ?t"
    have "agentic_loop env s = Some ?t"
      using fin by (subst agentic_loop_unfold) simp
    moreover have "run_graph env BuildMessages s = Some (finalize_node env ?t)"
      using fin by (simp add: run_graph_BuildMessages validation_edges_def run_graph_Finalize)
    moreover have "loop_effect s ?t"
      using fin by (auto simp add: loop_effect_def frame intro: exI [of _ 1])
    ultimately show ?thesis by blast
  next
    assume retry: "?r = ''retry'' \<and> Suc (validation_attempts s) < max_validation_runs s"
    then have "max_validation_runs ?t - validation_attempts ?t
                 < max_validation_runs s - validation_attempts s"
      by (simp add: frame) linarith
    from less [OF this] obtain s' where
      loop: "agentic_loop env ?t = Some s'"
      and graph: "run_graph env BuildMessages ?t = Some (finalize_node env s')"
      and eff: "loop_effect ?t s'"
      by blast
    have "agentic_loop env s = Some s'"
      using retry loop by (subst agentic_loop_unfold) simp
    moreover have "run_graph env BuildMessages s = Some (finalize_node env s')"
      using retry graph by (simp add: run_graph_BuildMessages validation_edges_def)
    moreover have "loop_effect s s'"
    proof -
      from eff obtain k where
        k: "validation_attempts s' = validation_attempts ?t + k"
           "execution_steps s' = execution_steps ?t
              @ concat (replicate k [''build_messages'', ''call_provider'', ''validate_response''])"
        by (auto simp add: loop_effect_def)
      have "validation_attempts s' = validation_attempts s + Suc k"
        using k by (simp add: frame)
      moreover have "execution_steps s' = execution_steps s
              @ concat (replicate (Suc k) [''build_messages'', ''call_provider'', ''validate_response''])"
        using k by (simp add: frame)
      ultimately have "\<exists>k. validation_attempts s' = validation_attempts s + k
            \<and> execution_steps s' = execution_steps s
                 @ concat (replicate k [''build_messages'', ''call_provider'', ''validate_response''])"
        by blast
      then show ?thesis
        using eff retry by (simp add: loop_effect_def frame)
    qed
    ultimately show ?thesis by blast
  qed
qed

lemma count_attempt_steps:
  "count_list (concat (replicate k attempt_steps)) ''call_provider'' = k"
  "count_list (concat (replicate k attempt_steps)) ''finalize'' = 0"
  "length (concat (replicate k attempt_steps)) = 3 * k"
  by (induction k) (simp_all add: attempt_steps_def)

lemma completed_trace_counts:
  assumes "completed_trace steps k"
  shows "count_list steps ''call_provider'' = k"
    and "count_list steps ''finalize'' = 1"
    and "length steps \<le> 3 * k + 4"
    and "last steps = ''finalize''"
  using assms by (auto simp add: completed_trace_def count_attempt_steps)

lemma setup_nodes_frame [frame]:
  "validation_attempts (initialize_node s) = validation_attempts s"
  "max_validation_runs (initialize_node s) = max_validation_runs s"
  "execution_steps (initialize_node s) = execution_steps s @ [''initialize'']"
  "specs (initialize_node s) = specs s"
  "validation_attempts (query_data_sources_node env s) = validation_attempts s"
  "max_validation_runs (query_data_sources_node env s) = max_validation_runs s"
  "execution_steps (query_data_sources_node env s) = execution_steps s @ [''query_data_sources'']"
  "specs (query_data_sources_node env s) = specs s"
  "validation_attempts (execute_tools_node env s) = validation_attempts s"
  "max_validation_runs (execute_tools_node env s) = max_validation_runs s"
  "execution_steps (execute_tools_node env s) = execution_steps s @ [''execute_tools'']"
  "specs (execute_tools_node env s) = specs s"
  "is_validated (initialize_node s) = is_validated s"
  "is_validated (query_data_sources_node env s) = is_validated s"
  "is_validated (execute_tools_node env s) = is_validated s"
  by (simp_all add: initialize_node_def query_data_sources_node_def execute_tools_node_def
      Let_def case_prod_beta split: option.splits)

lemma finalize_node_frame [frame]:
  "validation_attempts (finalize_node env s) = validation_attempts s"
  "max_validation_runs (finalize_node env s) = max_validation_runs s"
  "execution_steps (finalize_node env s) = execution_steps s @ [''finalize'']"
  "is_validated (finalize_node env s) = is_validated s"
  "confidence_score (finalize_node env s) = confidence_score s"
  "end_time (finalize_node env s) = Some (clock env)"
  by (simp_all add: finalize_node_def Let_def)

lemma loop_from_setup:
  assumes "validation_attempts s = 0" and "max_validation_runs s = 5"
  shows "\<exists>pre. agentic_loop env s = Some pre
           \<and> run_graph env BuildMessages s = Some (finalize_node env pre)
           \<and> is_validated pre \<and> max_validation_runs pre = 5
           \<and> 1 \<le> validation_attempts pre \<and> validation_attempts pre \<le> 5
           \<and> execution_steps pre =
               execution_steps s @ concat (replicate (validation_attempts pre) attempt_steps)"
proof -
  from agentic_loop_total [of env s] obtain pre where
    "agentic_loop env s = Some pre"
    "run_graph env BuildMessages s = Some (finalize_node env pre)"
    "loop_effect s pre"
    by blast
  then show ?thesis
    using assms by (auto simp add: loop_effect_def attempt_steps_def)
qed

lemma run_graph_setup:
  "run_graph env ExecuteTools s = run_graph env BuildMessages (execute_tools_node env s)"
  "run_graph env QueryDataSources s =
     run_graph env (data_sources_edges (route_after_data_sources (query_data_sources_node env s)))
       (query_data_sources_node env s)"
  "run_graph env Initialize s =
     run_graph env (initialize_edges (route_after_initialize (initialize_node s)))
       (initialize_node s)"
  by (subst run_graph.simps, simp add: Let_def)+

lemma initial_state_fields:
  "validation_attempts (initial_state eid plan req t0) = 0"
  "max_validation_runs (initial_state eid plan req t0) = 5"
  "execution_steps (initial_state eid plan req t0) = []"
  "specs (initial_state eid plan req t0) = optimized_specs plan"
  by (simp_all add: initial_state_def)

lemma execute_sequential_completes:
  assumes "validation_attempts s = 0" and "max_validation_runs s = 5"
    and "execution_steps s = []"
  shows "\<exists>pre. execute_sequential env s = Some (finalize_node env pre)
           \<and> is_validated pre \<and> max_validation_runs pre = 5
           \<and> 1 \<le> validation_attempts pre \<and> validation_attempts pre \<le> 5
           \<and> completed_trace (execution_steps (finalize_node env pre)) (validation_attempts pre)"
proof -
  define s0 where "s0 = initialize_node s"
  define s1 where
    "s1 = (if data_sources (specs s0) \<noteq> [] then query_data_sources_node env s0 else s0)"
  define s2 where "s2 = (if tools (specs s1) \<noteq> [] then execute_tools_node env s1 else s1)"
  have a: "validation_attempts s2 = 0" "max_validation_runs s2 = 5"
    using assms by (simp_all add: s0_def s1_def s2_def frame)
  have steps: "execution_steps s2 =
      ''initialize'' # (if data_sources (specs s0) \<noteq> [] then [''query_data_sources''] else [])
        @ (if tools (specs s1) \<noteq> [] then [''execute_tools''] else [])"
    using assms by (simp add: s0_def s1_def s2_def frame)
  from loop_from_setup [OF a, of env] obtain pre where pre:
    "agentic_loop env s2 = Some pre" "is_validated pre" "max_validation_runs pre = 5"
    "1 \<le> validation_attempts pre" "validation_attempts pre \<le> 5"
    "execution_steps pre =
       execution_steps s2 @ concat (replicate (validation_attempts pre) attempt_steps)"
    by blast
  have "execute_sequential env s = map_option (finalize_node env) (agentic_loop env s2)"
    by (simp add: execute_sequential_def Let_def s0_def s1_def s2_def)
  then have "execute_sequential env s = Some (finalize_node env pre)"
    using pre(1) by simp
  moreover have
    "completed_trace (execution_steps (finalize_node env pre)) (validation_attempts pre)"
    unfolding completed_trace_def using pre(6) steps
    by (intro exI [of _ "data_sources (specs s0) \<noteq> []"] exI [of _ "tools (specs s1) \<noteq> []"])
       (simp add: frame)
  ultimately show ?thesis using pre by blast
qed

lemma route_after_initialize_range:
  "route_after_initialize s = ''messages'' \<or> route_after_initialize s = ''tools''
   \<or> route_after_initialize s = ''data_sources''"
  by (simp add: route_after_initialize_def)

lemma route_after_data_sources_range:
  "route_after_data_sources s = ''tools'' \<or> route_after_data_sources s = ''messages''"
  by (simp add: route_after_data_sources_def)

lemma graph_setup:
  assumes "validation_attempts s = 0" and "max_validation_runs s = 5"
    and "execution_steps s = []"
  shows "\<exists>q t s2. run_graph env Initialize s = run_graph env BuildMessages s2
           \<and> validation_attempts s2 = 0 \<and> max_validation_runs s2 = 5
           \<and> specs s2 = specs s \<and> is_validated s2 = is_validated s
           \<and> execution_steps s2 =
               ''initialize'' # (if q then [''query_data_sources''] else [])
                 @ (if t then [''execute_tools''] else [])"
proof -
  let ?s0 = "initialize_node s"
  let ?s1 = "query_data_sources_node env ?s0"
  consider (messages) "route_after_initialize ?s0 = ''messages''"
    | (tools) "route_after_initialize ?s0 = ''tools''"
    | (sources_tools) "route_after_initialize ?s0 = ''data_sources''"
        "route_after_data_sources ?s1 = ''tools''"
    | (sources) "route_after_initialize ?s0 = ''data_sources''"
        "route_after_data_sources ?s1 = ''messages''"
    using route_after_initialize_range [of ?s0] route_after_data_sources_range [of ?s1]
    by blast
  then show ?thesis
  proof cases
    case messages
    then have "run_graph env Initialize s = run_graph env BuildMessages ?s0"
      by (simp add: run_graph_setup initialize_edges_def)
    then show ?thesis
      using assms
      by (intro exI [of _ False] exI [of _ ?s0]) (simp add: frame)
  next
    case tools
    then have "run_graph env Initialize s
                 = run_graph env BuildMessages (execute_tools_node env ?s0)"
      by (simp add: run_graph_setup initialize_edges_def)
    then show ?thesis
      using assms
      by (intro exI [of _ False] exI [of _ True] exI [of _ "execute_tools_node env ?s0"])
         (simp add: frame)
  next
    case sources_tools
    then have "run_graph env Initialize s
                 = run_graph env BuildMessages (execute_tools_node env ?s1)"
      by (simp add: run_graph_setup initialize_edges_def data_sources_edges_def)
    then show ?thesis
      using assms
      by (intro exI [of _ True] exI [of _ "execute_tools_node env ?s1"]) (simp add: frame)
  next
    case sources
    then have "run_graph env Initialize s = run_graph env BuildMessages ?s1"
      by (simp add: run_graph_setup initialize_edges_def data_sources_edges_def)
    then show ?thesis
      using assms
      by (intro exI [of _ True] exI [of _ False] exI [of _ ?s1]) (simp add: frame)
  qed
qed

lemma execute_graph_completes:
  assumes "validation_attempts s = 0" and "max_validation_runs s = 5"
    and "execution_steps s = []"
  shows "\<exists>pre. execute_graph env s = Some (finalize_node env pre)
           \<and> is_validated pre \<and> max_validation_runs pre = 5
           \<and> 1 \<le> validation_attempts pre \<and> validation_attempts pre \<le> 5
           \<and> completed_trace (execution_steps (finalize_node env pre)) (validation_attempts pre)"
proof -
  from graph_setup [OF assms, of env] obtain q t s2 where s2:
    "run_graph env Initialize s = run_graph env BuildMessages s2"
    "validation_attempts s2 = 0" "max_validation_runs s2 = 5"
    "execution_steps s2 =
       ''initialize'' # (if q then [''query_data_sources''] else [])
         @ (if t then [''execute_tools''] else [])"
    by blast
  from loop_from_setup [OF s2(2,3), of env] obtain pre where pre:
    "run_graph env BuildMessages s2 = Some (finalize_node env pre)"
    "is_validated pre" "max_validation_runs pre = 5"
    "1 \<le> validation_attempts pre" "validation_attempts pre \<le> 5"
    "execution_steps pre =
       execution_steps s2 @ concat (replicate (validation_attempts pre) attempt_steps)"
    by blast
  have "execute_graph env s = Some (finalize_node env pre)"
    using s2(1) pre(1) by (simp add: execute_graph_def)
  moreover have
    "completed_trace (execution_steps (finalize_node env pre)) (validation_attempts pre)"
    unfolding completed_trace_def using pre(6) s2(4)
    by (intro exI [of _ q] exI [of _ t]) (simp add: frame)
  ultimately show ?thesis using pre by blast
qed

lemma run_workflow_completes:
  "\<exists>pre. run_workflow env graph_built (initial_state eid plan req t0)
             = Some (finalize_node env pre)
         \<and> is_validated pre \<and> max_validation_runs pre = 5
         \<and> 1 \<le> validation_attempts pre \<and> validation_attempts pre \<le> 5
         \<and> completed_trace (execution_steps (finalize_node env pre)) (validation_attempts pre)"
  using execute_graph_completes [OF initial_state_fields(1,2,3), of env eid plan req t0]
    execute_sequential_completes [OF initial_state_fields(1,2,3), of env eid plan req t0]
  by (simp add: run_workflow_def)

lemma node_invariant_bounds:
  "node_invariant n s \<Longrightarrow>
     validation_attempts s \<le> max_validation_runs s
     \<and> count_list (execution_steps s) ''call_provider'' \<le> max_validation_runs s"
  by (cases n) auto

lemma edges_range:
  "initialize_edges l = QueryDataSources \<or> initialize_edges l = ExecuteTools
   \<or> initialize_edges l = BuildMessages"
  "data_sources_edges l = ExecuteTools \<or> data_sources_edges l = BuildMessages"
  by (simp_all add: initialize_edges_def data_sources_edges_def)

lemma graph_step_invariant:
  assumes "node_invariant n s" and "graph_step env n s = (n', s')"
  shows "node_invariant n' s'"
proof (cases n)
  case Initialize
  with assms edges_range(1) [of "route_after_initialize (initialize_node s)"] show ?thesis
    by (auto simp add: Let_def frame)
next
  case QueryDataSources
  with assms
    edges_range(2) [of "route_after_data_sources (query_data_sources_node env s)"]
  show ?thesis
    by (auto simp add: Let_def frame)
next
  case ValidateResponse
  let ?v = "validate_response_node env s"
  from route_after_validation_cases [of ?v] show ?thesis
  proof
    assume "fst (route_after_validation ?v) = ''finalize''
              \<and> is_validated (snd (route_after_validation ?v))"
    with assms ValidateResponse show ?thesis
      by (auto simp add: case_prod_beta validation_edges_def frame)
  next
    assume "fst (route_after_validation ?v) = ''retry''
      \<and> validation_attempts ?v < max_validation_runs ?v
      \<and> \<not> is_validated ?v \<and> snd (route_after_validation ?v) = ?v"
    with assms ValidateResponse show ?thesis
      by (auto simp add: case_prod_beta validation_edges_def frame)
  qed
qed (use assms in \<open>auto simp add: frame\<close>)

lemma graph_reaches_invariant:
  "graph_reaches env n0 s0 n s \<Longrightarrow> node_invariant n0 s0 \<Longrightarrow> node_invariant n s"
  by (induction rule: graph_reaches.induct) (auto intro: graph_step_invariant)

lemma initial_state_invariant: "node_invariant Initialize (initial_state eid plan req t0)"
  by (simp add: initial_state_def)

lemma finalize_node_status:
  "status (finalize_node env s) =
     (if errors (finalize_node env s) = [] then ''completed'' else ''completed_with_errors'')"
  by (simp add: finalize_node_def Let_def)

lemma finalize_node_low_confidence:
  "confidence_score s < 3 / 4 \<Longrightarrow>
     final_content (finalize_node env s) = Some (hd fallback_messages)
     \<and> errors (finalize_node env s) = errors s @ [LowConfidenceFallback (confidence_score s)]"
  by (simp add: finalize_node_def Let_def)

lemma finalize_node_accepted:
  "\<not> confidence_score s < 3 / 4 \<Longrightarrow>
     final_content (finalize_node env s) = final_content s
     \<and> errors (finalize_node env s) = errors s"
  by (simp add: finalize_node_def Let_def)

lemma agentic_loop_returns: "agentic_loop env s \<noteq> None"
  using agentic_loop_total [of env s] by auto

section \<open>The response validator (C6)\<close>

text \<open>Values of the validator's parts at the example inputs.\<close>

lemma zeros_digits:
  "foldl (\<lambda>n c. 10 * n + (of_char c - 48)) (m::nat) (replicate k CHR ''0'') = m * 10 ^ k"
  by (induction k arbitrary: m) (simp_all add: ac_simps)

lemma huge_score_value: "int_of_digits huge_score_digits = 10 ^ 309"
  by (simp add: huge_score_digits_def int_of_digits_def zeros_digits)

lemma huge_score_raises: "score_conversion_raises huge_score_digits"
  by (simp add: score_conversion_raises_def huge_score_value float_overflow_bound_def)

lemma small_scores_convert:
  "\<not> score_conversion_raises ''90''" "\<not> score_conversion_raises ''150''"
  by (simp_all add: score_conversion_raises_def int_max_str_digits_def
      float_overflow_bound_def int_of_digits_def)

lemma small_scores: "int_of_digits ''90'' = 90" "int_of_digits ''150'' = 150"
  by (simp_all add: int_of_digits_def)

lemma good_answer_stages:
  "\<not> length (strip good_answer) < 10"
  "\<not> count_list good_answer CHR '' '' < 3"
  "list_ex (contains (lower good_answer)) error_patterns = False"
  by code_simp+

lemma good_answer_passes: "rule_based_checks good_answer = None"
  by (simp add: rule_based_checks_def good_answer_stages)

lemma padded_word:
  "10 \<le> length (strip ''  Absolutely! '')"
  "count_list (strip ''  Absolutely! '') CHR '' '' = 0"
  "rule_based_checks ''  Absolutely! '' = None"
  by code_simp+

lemma score_lines:
  "score_search (strip ''SCORE: 90 REASONING: correct and complete'') = Some ''90''"
  "score_search (strip ''SCORE: 150'') = Some ''150''"
  by code_simp+

lemma huge_score_line:
  "score_search (strip huge_score_reply) = Some huge_score_digits"
  "length huge_score_digits = 310"
  by code_simp+

lemma example_specs_provider: "provider example_specs = Some example_provider"
  by (simp add: example_specs_def)

lemma good_answer_graded:
  "vr_confidence (validate_response_quality example_specs
      (GradeReplied ''SCORE: 90 REASONING: correct and complete'') good_answer) = 39 / 50"
  "vr_confidence (validate_response_quality example_specs
      (GradeReplied ''SCORE: 150'') good_answer) = 17 / 20"
  "vr_confidence (validate_response_quality example_specs
      (GradeReplied huge_score_reply) good_answer) = 1 / 2"
  "vr_confidence (validate_response_quality example_specs GradeInitFailed
      ''  Absolutely! '') = 1 / 2"
  by (simp_all add: validate_response_quality_def grade_reply_def Let_def
      good_answer_passes padded_word score_lines huge_score_line
      small_scores_convert small_scores huge_score_raises example_specs_provider)

text \<open>
  C6, as amended. For every response text the staged checks give confidence 0.1 when the
  stripped text has fewer than 10 characters, else 0.2 when the text has fewer than 3
  space characters, leading and trailing ones counted, else 0.3 when the lower-cased text
  contains a refusal pattern and the text has fewer than 100 characters, else the base
  0.5. When a provider is configured and the grading call replies with a parseable
  \<open>SCORE:\<close> line, the confidence is 0.3 times the base plus 0.7 times the parsed score
  divided by 100 and capped at 1, unless converting the score raises (more than 4300
  digits, or a number from \<open>2 ^ 1024 - 2 ^ 970\<close> on), which gives the base 0.5; an
  unparseable reply gives 0.75 on the keyword \<open>acceptable\<close> or \<open>good\<close> and 0.5
  otherwise. The first three stages report the response invalid.
\<close>

theorem validator_staged_confidence:
  "vr_confidence (validate_response_quality spec grading response) =
    (if length (strip response) < 10 then 1 / 10
     else if count_list response CHR '' '' < 3 then 2 / 10
     else if list_ex (contains (lower response)) error_patterns \<and> length response < 100
     then 3 / 10
     else (case (provider spec, grading) of
             (Some p, GradeReplied reply) \<Rightarrow>
               (case score_search (strip reply) of
                  Some ds \<Rightarrow>
                    if score_conversion_raises ds then 1 / 2
                    else (3 / 10) * (1 / 2)
                           + (7 / 10) * min (of_nat (int_of_digits ds) / 100) 1
                | None \<Rightarrow>
                    if contains (lower (strip reply)) ''acceptable''
                       \<or> contains (lower (strip reply)) ''good''
                    then 3 / 4 else 1 / 2)
           | _ \<Rightarrow> 1 / 2))
   \<and> (length (strip response) < 10 \<or> count_list response CHR '' '' < 3
          \<or> (list_ex (contains (lower response)) error_patterns \<and> length response < 100)
        \<longrightarrow> \<not> is_valid (validate_response_quality spec grading response))"
proof
  show "vr_confidence (validate_response_quality spec grading response) =
    (if length (strip response) < 10 then 1 / 10
     else if count_list response CHR '' '' < 3 then 2 / 10
     else if list_ex (contains (lower response)) error_patterns \<and> length response < 100
     then 3 / 10
     else (case (provider spec, grading) of
             (Some p, GradeReplied reply) \<Rightarrow>
               (case score_search (strip reply) of
                  Some ds \<Rightarrow>
                    if score_conversion_raises ds then 1 / 2
                    else (3 / 10) * (1 / 2)
                           + (7 / 10) * min (of_nat (int_of_digits ds) / 100) 1
                | None \<Rightarrow>
                    if contains (lower (strip reply)) ''acceptable''
                       \<or> contains (lower (strip reply)) ''good''
                    then 3 / 4 else 1 / 2)
           | _ \<Rightarrow> 1 / 2))"
    by (simp add: validate_response_quality_def rule_based_checks_def grade_reply_def Let_def
        split: option.splits grading_outcome.splits)
next
  show "length (strip response) < 10 \<or> count_list response CHR '' '' < 3
          \<or> (list_ex (contains (lower response)) error_patterns \<and> length response < 100)
        \<longrightarrow> \<not> is_valid (validate_response_quality spec grading response)"
    by (simp add: validate_response_quality_def rule_based_checks_def)
qed

theorem validator_staged_confidence_witness:
  "vr_confidence
     (validate_response_quality example_specs
        (GradeReplied ''SCORE: 90 REASONING: correct and complete'') good_answer) = 39 / 50
   \<and> length (strip ''  Paris. '') < 10
   \<and> \<not> is_valid (validate_response_quality example_specs GradeInitFailed ''  Paris. '')"
proof -
  note graded = validator_staged_confidence
         [of example_specs "GradeReplied ''SCORE: 90 REASONING: correct and complete''"
            good_answer]
  have "vr_confidence
     (validate_response_quality example_specs
        (GradeReplied ''SCORE: 90 REASONING: correct and complete'') good_answer)
     = (3 / 10) * (1 / 2) + (7 / 10) * min (of_nat (int_of_digits ''90'') / 100) 1"
    using conjunct1 [OF graded]
    by (simp add: good_answer_stages score_lines small_scores_convert example_specs_provider)
  then have first: "vr_confidence
     (validate_response_quality example_specs
        (GradeReplied ''SCORE: 90 REASONING: correct and complete'') good_answer) = 39 / 50"
    by (simp add: small_scores)
  have short: "length (strip ''  Paris. '') < 10"
    by code_simp
  with conjunct2 [OF validator_staged_confidence
         [of example_specs GradeInitFailed "''  Paris. ''"]]
  have "\<not> is_valid (validate_response_quality example_specs GradeInitFailed ''  Paris. '')"
    by blast
  with first short show ?thesis by blast
qed

text \<open>
  C6 as stated fails at three places. The code caps the graded part at 1, so the score
  150 gives 0.85, not 0.3 * 0.5 + 0.7 * 150 / 100 = 1.2. The second stage counts every
  space of the unstripped text, so a response whose stripped text is one word between
  two leading spaces and a trailing one passes it and gets the base 0.5, not 0.2. And a
  score of 310 digits cannot be converted to a float, so the handler of the grading
  branch returns the base 0.5 and no graded confidence.
\<close>

theorem validator_staged_confidence_counterexample:
  "score_search (strip ''SCORE: 150'') = Some ''150''
   \<and> int_of_digits ''150'' = 150
   \<and> vr_confidence
        (validate_response_quality example_specs (GradeReplied ''SCORE: 150'') good_answer)
       = 17 / 20
   \<and> vr_confidence
        (validate_response_quality example_specs (GradeReplied ''SCORE: 150'') good_answer)
       \<noteq> (3 / 10) * (1 / 2) + (7 / 10) * (of_nat (int_of_digits ''150'') / 100)
   \<and> 10 \<le> length (strip ''  Absolutely! '')
   \<and> count_list (strip ''  Absolutely! '') CHR '' '' = 0
   \<and> vr_confidence
        (validate_response_quality example_specs GradeInitFailed ''  Absolutely! '') = 1 / 2
   \<and> score_search (strip huge_score_reply) = Some huge_score_digits
   \<and> length huge_score_digits = 310
   \<and> int_of_digits huge_score_digits = 10 ^ 309
   \<and> vr_confidence
        (validate_response_quality example_specs (GradeReplied huge_score_reply) good_answer)
       = 1 / 2"
  by (simp add: score_lines small_scores good_answer_graded padded_word huge_score_line
      huge_score_value)

section \<open>Bounded retries (C1)\<close>

text \<open>
  C1. Every run of a plan, on the graph or on the sequential path, returns a final state
  in which the number of \<open>call_provider\<close> entries of the trace equals
  \<open>validation_attempts\<close> and both are at most \<open>max_validation_runs\<close>, which is 5; and in
  every state a graph run passes through, the counter and the number of provider calls
  made so far are at most \<open>max_validation_runs\<close>.
\<close>

theorem bounded_retries:
  "(\<exists>final. run_workflow env graph_built (initial_state eid plan req t0) = Some final
      \<and> max_validation_runs final = 5
      \<and> count_list (execution_steps final) ''call_provider'' = validation_attempts final
      \<and> count_list (execution_steps final) ''call_provider'' \<le> max_validation_runs final
      \<and> validation_attempts final \<le> max_validation_runs final)
   \<and> (\<forall>n s. graph_reaches env Initialize (initial_state eid plan req t0) n s \<longrightarrow>
          max_validation_runs s = 5
          \<and> validation_attempts s \<le> max_validation_runs s
          \<and> count_list (execution_steps s) ''call_provider'' \<le> max_validation_runs s)"
proof
  from run_workflow_completes [of env graph_built eid plan req t0] obtain pre where pre:
    "run_workflow env graph_built (initial_state eid plan req t0) = Some (finalize_node env pre)"
    "max_validation_runs pre = 5" "validation_attempts pre \<le> 5"
    "completed_trace (execution_steps (finalize_node env pre)) (validation_attempts pre)"
    by blast
  let ?final = "finalize_node env pre"
  have "count_list (execution_steps ?final) ''call_provider'' = validation_attempts ?final"
    using completed_trace_counts(1) [OF pre(4)] by (simp add: frame)
  then show "\<exists>final. run_workflow env graph_built (initial_state eid plan req t0) = Some final
      \<and> max_validation_runs final = 5
      \<and> count_list (execution_steps final) ''call_provider'' = validation_attempts final
      \<and> count_list (execution_steps final) ''call_provider'' \<le> max_validation_runs final
      \<and> validation_attempts final \<le> max_validation_runs final"
    using pre by (intro exI [of _ ?final]) (simp add: frame)
next
  show "\<forall>n s. graph_reaches env Initialize (initial_state eid plan req t0) n s \<longrightarrow>
          max_validation_runs s = 5
          \<and> validation_attempts s \<le> max_validation_runs s
          \<and> count_list (execution_steps s) ''call_provider'' \<le> max_validation_runs s"
  proof (intro allI impI)
    fix n s
    assume "graph_reaches env Initialize (initial_state eid plan req t0) n s"
    then have inv: "node_invariant n s"
      using initial_state_invariant by (rule graph_reaches_invariant)
    then have "max_validation_runs s = 5" by (cases n) auto
    with node_invariant_bounds [OF inv] show "max_validation_runs s = 5
          \<and> validation_attempts s \<le> max_validation_runs s
          \<and> count_list (execution_steps s) ''call_provider'' \<le> max_validation_runs s"
      by simp
  qed
qed

theorem bounded_retries_witness:
  "(\<exists>final. run_workflow env_provider_fails True
               (initial_state ''run-1'' example_plan example_request 0) = Some final
      \<and> max_validation_runs final = 5
      \<and> count_list (execution_steps final) ''call_provider'' = validation_attempts final
      \<and> count_list (execution_steps final) ''call_provider'' \<le> max_validation_runs final
      \<and> validation_attempts final \<le> max_validation_runs final)
   \<and> graph_reaches env_provider_fails Initialize
        (initial_state ''run-1'' example_plan example_request 0)
        Initialize (initial_state ''run-1'' example_plan example_request 0)
   \<and> validation_attempts (initial_state ''run-1'' example_plan example_request 0)
        \<le> max_validation_runs (initial_state ''run-1'' example_plan example_request 0)"
  using bounded_retries [of env_provider_fails True "''run-1''" example_plan example_request 0]
    reaches_start [of env_provider_fails Initialize
      "initial_state ''run-1'' example_plan example_request 0"]
  by blast

section \<open>Termination (C2)\<close>

text \<open>
  C2. For every plan, request and behaviour of the collaborators, exceptions of the
  provider call and of the validator on every attempt included, the retry loop returns
  from every state, and the run returns a final state whose last trace entry is
  \<open>finalize\<close>, after at most 19 node executions and at most 5 attempts, with the end time
  stamped and a completed status; \<open>execute_plan\<close> returns the result built from it.
\<close>

theorem workflow_terminates:
  "(\<forall>s. agentic_loop env s \<noteq> None)
   \<and> (\<exists>final. run_workflow env graph_built (initial_state eid plan req t0) = Some final
         \<and> execute_plan env graph_built eid plan req t0 = Some (determine_outcome env final)
         \<and> last (execution_steps final) = ''finalize''
         \<and> length (execution_steps final) \<le> 19
         \<and> validation_attempts final \<le> 5
         \<and> end_time final = Some (clock env)
         \<and> (status final = ''completed'' \<or> status final = ''completed_with_errors''))"
proof
  show "\<forall>s. agentic_loop env s \<noteq> None"
    by (simp add: agentic_loop_returns)
next
  from run_workflow_completes [of env graph_built eid plan req t0] obtain pre where pre:
    "run_workflow env graph_built (initial_state eid plan req t0) = Some (finalize_node env pre)"
    "validation_attempts pre \<le> 5"
    "completed_trace (execution_steps (finalize_node env pre)) (validation_attempts pre)"
    by blast
  let ?final = "finalize_node env pre"
  have "length (execution_steps ?final) \<le> 19"
    using completed_trace_counts(3) [OF pre(3)] pre(2) by simp
  moreover have "last (execution_steps ?final) = ''finalize''"
    by (simp add: frame)
  moreover have "status ?final = ''completed'' \<or> status ?final = ''completed_with_errors''"
    by (simp add: finalize_node_status)
  moreover have "execute_plan env graph_built eid plan req t0
                   = Some (determine_outcome env ?final)"
    using pre(1) by (simp add: execute_plan_def)
  ultimately show "\<exists>final. run_workflow env graph_built (initial_state eid plan req t0) = Some final
         \<and> execute_plan env graph_built eid plan req t0 = Some (determine_outcome env final)
         \<and> last (execution_steps final) = ''finalize''
         \<and> length (execution_steps final) \<le> 19
         \<and> validation_attempts final \<le> 5
         \<and> end_time final = Some (clock env)
         \<and> (status final = ''completed'' \<or> status final = ''completed_with_errors'')"
    using pre(1,2) by (intro exI [of _ ?final]) (simp add: frame)
qed

theorem workflow_terminates_witness:
  "\<exists>final. run_workflow env_all_raise False
              (initial_state ''run-2'' example_plan example_request 0) = Some final
     \<and> execute_plan env_all_raise False ''run-2'' example_plan example_request 0
         = Some (determine_outcome env_all_raise final)
     \<and> last (execution_steps final) = ''finalize''
     \<and> length (execution_steps final) \<le> 19"
  using workflow_terminates [of env_all_raise False "''run-2''" example_plan example_request 0]
  by blast

section \<open>The finalize node (C5)\<close>

text \<open>
  C5. Every run ends in the state \<open>finalize_node\<close> returns, and its trace has exactly one
  \<open>finalize\<close> entry. When the confidence score is below 0.75 the node replaces
  \<open>final_content\<close> by the first of the fixed fallback messages and appends the error entry
  of the substitution; otherwise it leaves both as they are. It sets the status to
  \<open>completed\<close> when the list of errors is empty and to \<open>completed_with_errors\<close> otherwise,
  and stamps the end time in both cases.
\<close>

theorem finalize_once:
  "\<exists>pre final. run_workflow env graph_built (initial_state eid plan req t0) = Some final
      \<and> final = finalize_node env pre
      \<and> count_list (execution_steps pre) ''finalize'' = 0
      \<and> count_list (execution_steps final) ''finalize'' = 1
      \<and> (if confidence_score pre < 3 / 4
          then final_content final = Some (hd fallback_messages)
               \<and> hd fallback_messages \<in> set fallback_messages
               \<and> errors final = errors pre @ [LowConfidenceFallback (confidence_score pre)]
          else final_content final = final_content pre \<and> errors final = errors pre)
      \<and> status final = (if errors final = [] then ''completed'' else ''completed_with_errors'')
      \<and> end_time final = Some (clock env)"
proof -
  from run_workflow_completes [of env graph_built eid plan req t0] obtain pre where pre:
    "run_workflow env graph_built (initial_state eid plan req t0) = Some (finalize_node env pre)"
    "completed_trace (execution_steps (finalize_node env pre)) (validation_attempts pre)"
    by blast
  let ?final = "finalize_node env pre"
  have one: "count_list (execution_steps ?final) ''finalize'' = 1"
    using completed_trace_counts(2) [OF pre(2)] .
  then have none: "count_list (execution_steps pre) ''finalize'' = 0"
    by (simp add: frame)
  have "hd fallback_messages \<in> set fallback_messages"
    by (simp add: fallback_messages_def)
  then have "if confidence_score pre < 3 / 4
          then final_content ?final = Some (hd fallback_messages)
               \<and> hd fallback_messages \<in> set fallback_messages
               \<and> errors ?final = errors pre @ [LowConfidenceFallback (confidence_score pre)]
          else final_content ?final = final_content pre \<and> errors ?final = errors pre"
    using finalize_node_low_confidence [of pre env] finalize_node_accepted [of pre env]
    by simp
  then show ?thesis
    using pre(1) one none finalize_node_status [of env pre]
    by (intro exI [of _ pre] exI [of _ ?final]) (simp add: frame)
qed

theorem finalize_once_witness:
  "\<exists>pre final. run_workflow env_good True
                  (initial_state ''run-3'' example_plan example_request 0) = Some final
      \<and> final = finalize_node env_good pre
      \<and> count_list (execution_steps final) ''finalize'' = 1
      \<and> status final = (if errors final = [] then ''completed'' else ''completed_with_errors'')
      \<and> end_time final = Some 10"
proof -
  have "clock env_good = 10"
    by (simp add: env_good_def)
  with finalize_once [of env_good True "''run-3''" example_plan example_request 0]
  show ?thesis by auto
qed

section \<open>A validator that raises (C10)\<close>

text \<open>Every run is its set-up nodes, the retry loop from a state with no attempt made, and
  \<open>finalize\<close>.\<close>

lemma run_workflow_via_loop:
  "\<exists>s2. validation_attempts s2 = 0 \<and> max_validation_runs s2 = 5
         \<and> specs s2 = optimized_specs plan \<and> \<not> is_validated s2
         \<and> count_list (execution_steps s2) ''call_provider'' = 0
         \<and> (\<forall>pre. agentic_loop env s2 = Some pre \<longrightarrow>
               run_workflow env graph_built (initial_state eid plan req t0)
                 = Some (finalize_node env pre))"
proof (cases graph_built)
  case True
  let ?init = "initial_state eid plan req t0"
  from graph_setup [OF initial_state_fields(1,2,3), of env eid plan req t0]
  obtain q t s2 where s2:
    "run_graph env Initialize ?init = run_graph env BuildMessages s2"
    "validation_attempts s2 = 0" "max_validation_runs s2 = 5"
    "specs s2 = specs ?init" "is_validated s2 = is_validated ?init"
    "execution_steps s2 =
       ''initialize'' # (if q then [''query_data_sources''] else [])
         @ (if t then [''execute_tools''] else [])"
    by blast
  from agentic_loop_total [of env s2] obtain pre' where pre':
    "agentic_loop env s2 = Some pre'"
    "run_graph env BuildMessages s2 = Some (finalize_node env pre')"
    by blast
  have "\<forall>pre. agentic_loop env s2 = Some pre \<longrightarrow>
          run_workflow env graph_built ?init = Some (finalize_node env pre)"
    using True s2(1) pre' by (simp add: run_workflow_def execute_graph_def)
  moreover have "count_list (execution_steps s2) ''call_provider'' = 0"
    using s2(6) by simp
  moreover have "specs s2 = optimized_specs plan" "\<not> is_validated s2"
    using s2(4,5) by (simp_all add: initial_state_def)
  ultimately show ?thesis
    using s2(2,3) by blast
next
  case False
  let ?init = "initial_state eid plan req t0"
  define s0 where "s0 = initialize_node ?init"
  define s1 where
    "s1 = (if data_sources (specs s0) \<noteq> [] then query_data_sources_node env s0 else s0)"
  define s2 where "s2 = (if tools (specs s1) \<noteq> [] then execute_tools_node env s1 else s1)"
  have "validation_attempts s2 = 0" "max_validation_runs s2 = 5"
    "specs s2 = optimized_specs plan" "\<not> is_validated s2"
    "count_list (execution_steps s2) ''call_provider'' = 0"
    by (simp_all add: s0_def s1_def s2_def frame initial_state_def)
  moreover have "run_workflow env graph_built ?init
                   = map_option (finalize_node env) (agentic_loop env s2)"
    using False
    by (simp add: run_workflow_def execute_sequential_def Let_def s0_def s1_def s2_def)
  ultimately show ?thesis by auto
qed

lemma loop_body_validator_raises:
  assumes "provider (specs s) = Some p"
    and "provider_call env (validation_attempts s) = ProviderReturned r None"
    and "success r" and "resp_content r \<noteq> []"
    and "\<not> startswith (resp_content r) ''Error:''"
    and "validator_fault env (validation_attempts s) = Some e"
  shows "fst (loop_body env s) = ''finalize''"
    and "confidence_score (snd (loop_body env s)) = 1 / 2"
    and "is_validated (snd (loop_body env s))"
    and "final_content (snd (loop_body env s)) = Some (resp_content r)"
    and "errors (snd (loop_body env s))
           = errors (build_messages_node env s) @ [ValidationError e]"
  using assms
  by (simp_all add: loop_body_def route_after_validation_def validate_response_node_def
      call_provider_node_def frame Let_def)

text \<open>
  C10. When the provider's first reply reaches the validator (the call succeeded, the
  text is neither empty nor an error marker) and the validation call raises on that first
  attempt, the run makes exactly one attempt and one provider call, leaves the loop with
  confidence 0.5 and \<open>is_validated\<close> set, and \<open>finalize\<close> replaces the generated content by
  the first fallback message and appends the error entry of the substitution after the
  validation error; the content \<open>execute_plan\<close> returns is the fallback message.
\<close>

theorem validator_exception_discards_response:
  assumes "provider (optimized_specs plan) = Some p"
    and "provider_call env 0 = ProviderReturned r None"
    and "success r" and "resp_content r \<noteq> []"
    and "\<not> startswith (resp_content r) ''Error:''"
    and "validator_fault env 0 = Some e"
  shows "\<exists>final. run_workflow env graph_built (initial_state eid plan req t0) = Some final
           \<and> validation_attempts final = 1
           \<and> count_list (execution_steps final) ''call_provider'' = 1
           \<and> confidence_score final = 1 / 2
           \<and> is_validated final
           \<and> final_content final = Some (hd fallback_messages)
           \<and> ValidationError e \<in> set (errors final)
           \<and> last (errors final) = LowConfidenceFallback (1 / 2)
           \<and> status final = ''completed_with_errors''
           \<and> execute_plan env graph_built eid plan req t0
                = Some (determine_outcome env final)
           \<and> res_content (determine_outcome env final) = hd fallback_messages"
proof -
  from run_workflow_via_loop [of plan env graph_built eid req t0] obtain s2 where s2:
    "validation_attempts s2 = 0" "max_validation_runs s2 = 5"
    "specs s2 = optimized_specs plan"
    "count_list (execution_steps s2) ''call_provider'' = 0"
    and run: "\<forall>pre. agentic_loop env s2 = Some pre \<longrightarrow>
               run_workflow env graph_built (initial_state eid plan req t0)
                 = Some (finalize_node env pre)"
    by blast
  let ?pre = "snd (loop_body env s2)"
  let ?final = "finalize_node env ?pre"
  note body = loop_body_validator_raises [of s2 p env r e]
  have hyps: "provider (specs s2) = Some p"
    "provider_call env (validation_attempts s2) = ProviderReturned r None"
    "validator_fault env (validation_attempts s2) = Some e"
    using assms s2 by simp_all
  note b = body [OF hyps(1,2) assms(3,4,5) hyps(3)]
  have "agentic_loop env s2 = Some ?pre"
    using b(1) by (subst agentic_loop_unfold) simp
  with run have r1: "run_workflow env graph_built (initial_state eid plan req t0) = Some ?final"
    by blast
  have low: "confidence_score ?pre < 3 / 4"
    using b(2) by simp
  note fin = finalize_node_low_confidence [OF low, of env]
  have errs: "errors ?final
      = errors (build_messages_node env s2) @ [ValidationError e, LowConfidenceFallback (1 / 2)]"
    using fin b(2,5) by simp
  have "status ?final = ''completed_with_errors''"
    using errs by (simp add: finalize_node_status)
  moreover have "res_content (determine_outcome env ?final) = hd fallback_messages"
    using fin by (simp add: determine_outcome_def reported_content_def Let_def)
  moreover have "count_list (execution_steps ?final) ''call_provider'' = 1"
    using s2(4) by (simp add: frame)
  moreover have "validation_attempts ?final = 1"
    using s2(1) by (simp add: frame)
  moreover have "execute_plan env graph_built eid plan req t0
                   = Some (determine_outcome env ?final)"
    using r1 by (simp add: execute_plan_def)
  ultimately show ?thesis
    using r1 b(2,3) fin errs
    by (intro exI [of _ ?final]) (simp add: frame)
qed

theorem validator_exception_discards_response_witness:
  "\<exists>final. run_workflow env_validator_raises False
              (initial_state ''run-5'' example_plan example_request 0) = Some final
     \<and> validation_attempts final = 1
     \<and> confidence_score final = 1 / 2
     \<and> final_content final = Some (hd fallback_messages)
     \<and> res_content (determine_outcome env_validator_raises final) = hd fallback_messages"
proof -
  have h1: "provider (optimized_specs example_plan) = Some example_provider"
    by (simp add: example_plan_def create_direct_plan_def example_specs_def)
  have h2: "provider_call env_validator_raises 0
      = ProviderReturned \<lparr>success = True, resp_content = good_answer, resp_error = None\<rparr> None"
    by (simp add: env_validator_raises_def env_good_def)
  have h3: "success \<lparr>success = True, resp_content = good_answer, resp_error = None\<rparr>"
    by simp
  have h4: "resp_content \<lparr>success = True, resp_content = good_answer, resp_error = None\<rparr> \<noteq> []"
    by (simp add: good_answer_def)
  have h5: "\<not> startswith
      (resp_content \<lparr>success = True, resp_content = good_answer, resp_error = None\<rparr>) ''Error:''"
    by (simp add: good_answer_def startswith_def)
  have h6: "validator_fault env_validator_raises 0 = Some ''no message''"
    by (simp add: env_validator_raises_def)
  from validator_exception_discards_response [OF h1 h2 h3 h4 h5 h6, of False "''run-5''"
      example_request 0]
  show ?thesis by blast
qed

section \<open>The confidence threshold of the loop (C3)\<close>








section \<open>The success flag (C4)\<close>

text \<open>
  C4, as amended. For every final state the success flag of the result is true exactly
  when the reported content is non-empty, is not the placeholder
  \<open>No response generated\<close> and does not start with \<open>Error:\<close>, and in addition the provider
  call reported success or the status is \<open>completed\<close> or \<open>completed_with_errors\<close>. Every
  run ends with one of these two statuses, so for a finished execution the flag is true
  exactly when the reported content is valid in that sense.
\<close>

theorem success_flag:
  "res_success (determine_outcome env final)
     = (has_valid_content (reported_content final)
        \<and> (llm_success final
           \<or> status final = ''completed'' \<or> status final = ''completed_with_errors''))
   \<and> (\<exists>fin. run_workflow env graph_built (initial_state eid plan req t0) = Some fin
         \<and> execute_plan env graph_built eid plan req t0 = Some (determine_outcome env fin)
         \<and> (status fin = ''completed'' \<or> status fin = ''completed_with_errors'')
         \<and> res_success (determine_outcome env fin)
              = (reported_content fin \<noteq> []
                 \<and> reported_content fin \<noteq> ''No response generated''
                 \<and> \<not> startswith (reported_content fin) ''Error:''))"
proof
  show "res_success (determine_outcome env final)
     = (has_valid_content (reported_content final)
        \<and> (llm_success final
           \<or> status final = ''completed'' \<or> status final = ''completed_with_errors''))"
    by (auto simp add: determine_outcome_def Let_def)
next
  from run_workflow_completes [of env graph_built eid plan req t0] obtain pre where pre:
    "run_workflow env graph_built (initial_state eid plan req t0) = Some (finalize_node env pre)"
    by blast
  let ?fin = "finalize_node env pre"
  have st: "status ?fin = ''completed'' \<or> status ?fin = ''completed_with_errors''"
    by (simp add: finalize_node_status)
  then have "res_success (determine_outcome env ?fin)
              = (reported_content ?fin \<noteq> []
                 \<and> reported_content ?fin \<noteq> ''No response generated''
                 \<and> \<not> startswith (reported_content ?fin) ''Error:'')"
    by (auto simp add: determine_outcome_def Let_def has_valid_content_def)
  moreover have "execute_plan env graph_built eid plan req t0
                   = Some (determine_outcome env ?fin)"
    using pre by (simp add: execute_plan_def)
  ultimately show "\<exists>fin. run_workflow env graph_built (initial_state eid plan req t0) = Some fin
         \<and> execute_plan env graph_built eid plan req t0 = Some (determine_outcome env fin)
         \<and> (status fin = ''completed'' \<or> status fin = ''completed_with_errors'')
         \<and> res_success (determine_outcome env fin)
              = (reported_content fin \<noteq> []
                 \<and> reported_content fin \<noteq> ''No response generated''
                 \<and> \<not> startswith (reported_content fin) ''Error:'')"
    using pre st by (intro exI [of _ ?fin]) simp
qed

theorem success_flag_witness:
  "res_success (determine_outcome env_good
       (initial_state ''run-7'' example_plan example_request 0))
     = (has_valid_content
          (reported_content (initial_state ''run-7'' example_plan example_request 0))
        \<and> (llm_success (initial_state ''run-7'' example_plan example_request 0)
           \<or> status (initial_state ''run-7'' example_plan example_request 0) = ''completed''
           \<or> status (initial_state ''run-7'' example_plan example_request 0)
               = ''completed_with_errors''))"
  using success_flag [of env_good "initial_state ''run-7'' example_plan example_request 0"
      True "''run-7''" example_plan example_request 0]
  by blast

text \<open>
  C4 as stated fails for a provider that reports a failure on every call: after five
  attempts \<open>finalize\<close> substitutes the fallback message, which is valid content, the status
  is \<open>completed_with_errors\<close>, and the success flag is true although no provider call
  reported success.
\<close>

theorem success_flag_counterexample:
  "(case run_workflow env_provider_fails False
           (initial_state ''run-7'' example_plan example_request 0) of
      None \<Rightarrow> False
    | Some final \<Rightarrow>
        res_success (determine_outcome env_provider_fails final)
        \<and> \<not> llm_success final
        \<and> validation_attempts final = 5
        \<and> status final = ''completed_with_errors''
        \<and> reported_content final = hd fallback_messages)"
  by code_simp

section \<open>The adaptive planner (C7)\<close>

text \<open>
  C7. When the reasoning step returns a result that carries an optimized spec, the
  adaptive plan has \<open>reasoning_applied\<close> exactly when the reasoning confidence is at least
  the spec's \<open>reasoning_threshold\<close>. In that case its optimized spec is the engine's and
  its confidence the reasoning confidence; otherwise its optimized spec is the original
  spec, unchanged, and its reasoning notes record the rejected suggestion and the failed
  comparison.
\<close>

theorem adaptive_plan_threshold:
  assumes "rr_optimized_specs r = Some optimized"
  shows "(let plan = create_adaptive_plan get_estimates (ReasoningReturned r) agent_specs;
              c = (case rr_confidence r of Some c \<Rightarrow> c | None \<Rightarrow> 0);
              threshold = reasoning_threshold (processing agent_specs);
              notes = (case rr_notes r of Some n \<Rightarrow> n | None \<Rightarrow> [])
          in reasoning_applied plan = (threshold \<le> c)
             \<and> original_specs plan = agent_specs
             \<and> (if threshold \<le> c
                 then optimized_specs plan = optimized \<and> plan_confidence plan = c
                      \<and> reasoning_notes plan = notes
                 else optimized_specs plan = agent_specs
                      \<and> plan_confidence plan = 1
                      \<and> map_of (reasoning_notes plan) ''suggestion'' = Some (NoteDict notes)
                      \<and> map_of (reasoning_notes plan) ''skipped''
                           = Some (NoteSkipped c threshold)))"
  using assms by (simp add: create_adaptive_plan_def Let_def)

theorem adaptive_plan_threshold_witness:
  "rr_optimized_specs (example_reasoning (1 / 2)) = Some cheaper_specs
   \<and> \<not> reasoning_applied
         (create_adaptive_plan (\<lambda>sp. (0, 1)) (ReasoningReturned (example_reasoning (1 / 2)))
            example_specs)
   \<and> optimized_specs
         (create_adaptive_plan (\<lambda>sp. (0, 1)) (ReasoningReturned (example_reasoning (1 / 2)))
            example_specs) = example_specs
   \<and> map_of (reasoning_notes
         (create_adaptive_plan (\<lambda>sp. (0, 1)) (ReasoningReturned (example_reasoning (1 / 2)))
            example_specs)) ''suggestion''
       = Some (NoteDict [(''provider'', NoteText ''can use cheaper'')])
   \<and> reasoning_applied
         (create_adaptive_plan (\<lambda>sp. (0, 1)) (ReasoningReturned (example_reasoning (3 / 4)))
            example_specs)
   \<and> optimized_specs
         (create_adaptive_plan (\<lambda>sp. (0, 1)) (ReasoningReturned (example_reasoning (3 / 4)))
            example_specs) = cheaper_specs"
proof -
  have h: "rr_optimized_specs (example_reasoning c) = Some cheaper_specs" for c
    by (simp add: example_reasoning_def)
  have c: "rr_confidence (example_reasoning c) = Some c"
          "rr_notes (example_reasoning c) = Some [(''provider'', NoteText ''can use cheaper'')]"
    for c
    by (simp_all add: example_reasoning_def)
  have t: "reasoning_threshold (processing example_specs) = 7 / 10"
    by (simp add: example_specs_def)
  show ?thesis
    using adaptive_plan_threshold
        [where r = "example_reasoning (1 / 2)" and get_estimates = "\<lambda>sp. (0, 1)"
           and agent_specs = example_specs, OF h]
      adaptive_plan_threshold
        [where r = "example_reasoning (3 / 4)" and get_estimates = "\<lambda>sp. (0, 1)"
           and agent_specs = example_specs, OF h]
    by (simp add: Let_def c t h)
qed

section \<open>Order of the data source results (C8)\<close>

lemma query_loop_results:
  "fst (query_loop env i ds) =
     concat (map (\<lambda>(j, d). fst (query_data_source env j d))
               (filter (\<lambda>(j, d). ds_enabled d) (enumerate i ds)))"
  by (induction ds arbitrary: i) (simp_all add: case_prod_beta Let_def)

lemma query_data_source_records:
  "fst (query_data_source env i d) =
     (if source_type d = VECTOR_DB
      then (case ds_call env i of
              DSRaised e \<Rightarrow> []
            | DSNotAvailable \<Rightarrow> [DSFailure ''vector_db'' ''Not available'']
            | DSInitFailed \<Rightarrow> [DSFailure ''vector_db'' ''Initialization failed'']
            | DSQueried docs closing \<Rightarrow> [DSResults ''vector_db'' docs (length docs)])
      else [])"
  by (cases "source_type d") (simp_all add: query_data_source_def split: ds_outcome.splits)

lemma query_node_results:
  "ds_setup_fault env = None \<Longrightarrow>
     data_source_results (query_data_sources_node env s)
       = fst (query_loop env 0 (data_sources (specs s)))"
  by (simp add: query_data_sources_node_def Let_def case_prod_beta)

text \<open>
  C8, as amended. When no exception escapes the set-up of the node,
  \<open>data_source_results\<close> is the concatenation, in the order of the spec's list, of the
  records of the enabled entries; for a list \<open>[a, b, c]\<close> with \<open>b\<close> disabled these are the
  records of \<open>a\<close> followed by the records of \<open>c\<close>. An enabled entry has exactly one
  record when its source type is \<open>vector_db\<close> and nothing raises before the record is
  appended, and none otherwise.
\<close>

theorem data_source_order:
  assumes "ds_setup_fault env = None"
  shows "data_source_results (query_data_sources_node env s) =
           concat (map (\<lambda>(j, d). fst (query_data_source env j d))
                     (filter (\<lambda>(j, d). ds_enabled d) (enumerate 0 (data_sources (specs s)))))
    \<and> (data_sources (specs s) = [a, b, c] \<and> ds_enabled a \<and> \<not> ds_enabled b \<and> ds_enabled c
         \<longrightarrow> data_source_results (query_data_sources_node env s) =
               fst (query_data_source env 0 a) @ fst (query_data_source env 2 c))
    \<and> fst (query_data_source env i d) =
        (if source_type d = VECTOR_DB
         then (case ds_call env i of
                 DSRaised e \<Rightarrow> []
               | DSNotAvailable \<Rightarrow> [DSFailure ''vector_db'' ''Not available'']
               | DSInitFailed \<Rightarrow> [DSFailure ''vector_db'' ''Initialization failed'']
               | DSQueried docs closing \<Rightarrow> [DSResults ''vector_db'' docs (length docs)])
         else [])"
proof (intro conjI impI)
  note r = query_node_results [OF assms, of s]
  show "data_source_results (query_data_sources_node env s) =
           concat (map (\<lambda>(j, d). fst (query_data_source env j d))
                     (filter (\<lambda>(j, d). ds_enabled d) (enumerate 0 (data_sources (specs s)))))"
    using r by (simp add: query_loop_results)
  show "data_source_results (query_data_sources_node env s) =
               fst (query_data_source env 0 a) @ fst (query_data_source env 2 c)"
    if "data_sources (specs s) = [a, b, c] \<and> ds_enabled a \<and> \<not> ds_enabled b \<and> ds_enabled c"
    using r that by (simp add: case_prod_beta Let_def numeral_2_eq_2)
  show "fst (query_data_source env i d) =
     (if source_type d = VECTOR_DB
      then (case ds_call env i of
              DSRaised e \<Rightarrow> []
            | DSNotAvailable \<Rightarrow> [DSFailure ''vector_db'' ''Not available'']
            | DSInitFailed \<Rightarrow> [DSFailure ''vector_db'' ''Initialization failed'']
            | DSQueried docs closing \<Rightarrow> [DSResults ''vector_db'' docs (length docs)])
      else [])"
    by (rule query_data_source_records)
qed

theorem data_source_order_witness:
  "ds_setup_fault env_documents = None
   \<and> data_sources (specs (sources_state [vector_source True, vector_source False,
        vector_source True]))
       = [vector_source True, vector_source False, vector_source True]
   \<and> ds_enabled (vector_source True) \<and> \<not> ds_enabled (vector_source False)
   \<and> data_source_results (query_data_sources_node env_documents
        (sources_state [vector_source True, vector_source False, vector_source True]))
       = [DSResults ''vector_db'' [''doc0''] 1, DSResults ''vector_db'' [''doc2''] 1]"
proof -
  have f: "ds_setup_fault env_documents = None"
    by (simp add: env_documents_def env_good_def)
  have d: "data_sources (specs (sources_state [vector_source True, vector_source False,
        vector_source True]))
       = [vector_source True, vector_source False, vector_source True]"
    by (simp add: sources_state_def initial_state_def create_direct_plan_def)
  have e: "ds_enabled (vector_source True)" "\<not> ds_enabled (vector_source False)"
    by (simp_all add: vector_source_def)
  have q: "fst (query_data_source env_documents 0 (vector_source True))
             = [DSResults ''vector_db'' [''doc0''] 1]"
          "fst (query_data_source env_documents 2 (vector_source True))
             = [DSResults ''vector_db'' [''doc2''] 1]"
    by code_simp+
  from data_source_order [OF f, of "sources_state [vector_source True, vector_source False,
        vector_source True]" "vector_source True" "vector_source False" "vector_source True"]
  have "data_sources (specs (sources_state [vector_source True, vector_source False,
            vector_source True]))
          = [vector_source True, vector_source False, vector_source True]
        \<and> ds_enabled (vector_source True) \<and> \<not> ds_enabled (vector_source False)
        \<and> ds_enabled (vector_source True)
      \<longrightarrow> data_source_results (query_data_sources_node env_documents
            (sources_state [vector_source True, vector_source False, vector_source True]))
          = fst (query_data_source env_documents 0 (vector_source True))
            @ fst (query_data_source env_documents 2 (vector_source True))"
    by (rule conjunct1 [OF conjunct2])
  with d e have "data_source_results (query_data_sources_node env_documents
            (sources_state [vector_source True, vector_source False, vector_source True]))
          = fst (query_data_source env_documents 0 (vector_source True))
            @ fst (query_data_source env_documents 2 (vector_source True))"
    by blast
  with q have "data_source_results (query_data_sources_node env_documents
            (sources_state [vector_source True, vector_source False, vector_source True]))
          = [DSResults ''vector_db'' [''doc0''] 1, DSResults ''vector_db'' [''doc2''] 1]"
    by simp
  with f d e show ?thesis by blast
qed

text \<open>
  C8 as stated fails for an enabled source of another type: with \<open>c\<close> a conversation
  history source the results hold the record of \<open>a\<close> alone.
\<close>

theorem data_source_order_counterexample:
  "ds_enabled history_source
   \<and> data_source_results (query_data_sources_node env_documents
        (sources_state [vector_source True, vector_source False, history_source]))
       = [DSResults ''vector_db'' [''doc0''] 1]"
  by code_simp

section \<open>The rate limiter (C9)\<close>

text \<open>
  C9. With rate limiting enabled, a call prunes the user's minute window to the time
  stamps of the last minute and the hour window to those of the last hour, answers true
  exactly when the pruned windows are below their caps, appends the current time to both
  windows when it does, and leaves the windows of every other user as they are. With the
  cap per minute at 2 and the cap per hour at least 2, three successive calls within one
  minute for a user without earlier requests answer true, true, false.
\<close>

theorem rate_limit_windows:
  assumes "rate_limiting_enabled cfg"
  shows "(let old = (case rl u of None \<Rightarrow> \<lparr>minute = [], hour = []\<rparr> | Some l \<Rightarrow> l);
              recent_minute = filter (\<lambda>t. now - one_minute < t) (minute old);
              recent_hour = filter (\<lambda>t. now - one_hour < t) (hour old);
              allowed = (int (length recent_minute) < max_min cfg
                         \<and> int (length recent_hour) < max_hour cfg)
          in check_rate_limit cfg now u rl
               = (allowed,
                  rl(u \<mapsto> \<lparr>minute = recent_minute @ (if allowed then [now] else []),
                            hour = recent_hour @ (if allowed then [now] else [])\<rparr>)))
    \<and> (max_min cfg = 2 \<and> 2 \<le> max_hour cfg \<and> rl u = None
         \<and> t1 \<le> t2 \<and> t2 \<le> t3 \<and> t3 - t1 < one_minute
         \<longrightarrow> (let r1 = check_rate_limit cfg t1 u rl;
                   r2 = check_rate_limit cfg t2 u (snd r1);
                   r3 = check_rate_limit cfg t3 u (snd r2)
               in fst r1 \<and> fst r2 \<and> \<not> fst r3))"
proof
  show "(let old = (case rl u of None \<Rightarrow> \<lparr>minute = [], hour = []\<rparr> | Some l \<Rightarrow> l);
              recent_minute = filter (\<lambda>t. now - one_minute < t) (minute old);
              recent_hour = filter (\<lambda>t. now - one_hour < t) (hour old);
              allowed = (int (length recent_minute) < max_min cfg
                         \<and> int (length recent_hour) < max_hour cfg)
          in check_rate_limit cfg now u rl
               = (allowed,
                  rl(u \<mapsto> \<lparr>minute = recent_minute @ (if allowed then [now] else []),
                            hour = recent_hour @ (if allowed then [now] else [])\<rparr>)))"
    using assms by (auto simp add: check_rate_limit_def Let_def)
  show "max_min cfg = 2 \<and> 2 \<le> max_hour cfg \<and> rl u = None
         \<and> t1 \<le> t2 \<and> t2 \<le> t3 \<and> t3 - t1 < one_minute
         \<longrightarrow> (let r1 = check_rate_limit cfg t1 u rl;
                   r2 = check_rate_limit cfg t2 u (snd r1);
                   r3 = check_rate_limit cfg t3 u (snd r2)
               in fst r1 \<and> fst r2 \<and> \<not> fst r3)"
    using assms by (auto simp add: check_rate_limit_def Let_def one_minute_def one_hour_def)
qed

theorem rate_limit_windows_witness:
  "rate_limiting_enabled two_per_minute
   \<and> max_min two_per_minute = 2 \<and> 2 \<le> max_hour two_per_minute
   \<and> fst (check_rate_limit two_per_minute 1000 ''alice'' Map.empty)
   \<and> fst (check_rate_limit two_per_minute 2000 ''alice''
            (snd (check_rate_limit two_per_minute 1000 ''alice'' Map.empty)))
   \<and> \<not> fst (check_rate_limit two_per_minute 3000 ''alice''
            (snd (check_rate_limit two_per_minute 2000 ''alice''
                   (snd (check_rate_limit two_per_minute 1000 ''alice'' Map.empty)))))"
proof -
  have e: "rate_limiting_enabled two_per_minute"
    by (simp add: rate_limiting_enabled_def two_per_minute_def)
  have m: "max_min two_per_minute = 2" "2 \<le> max_hour two_per_minute"
    by (simp_all add: max_min_def max_hour_def two_per_minute_def)
  have t: "(1000::int) \<le> 2000" "(2000::int) \<le> 3000" "(3000::int) - 1000 < one_minute"
    by (simp_all add: one_minute_def)
  from rate_limit_windows [OF e, of Map.empty "''alice''" 0 1000 2000 3000]
  show ?thesis
    using e m t by (simp add: Let_def)
qed

end
